theory Spec2Isabelle
  imports Complex_Main "HOL-Library.Sublist" "HOL-Library.Multiset"
begin

section \<open>JavaScript numbers\<close>

text \<open>
  A JavaScript number is an IEEE 754 binary64 value: NaN, an infinity with its sign, or a
  finite value, given by its sign (\<open>True\<close> is negative, so that there are two zeros) and
  its magnitude, a rational of the binary64 grid. The arithmetic operators give the exact
  result rounded to the nearest value of the grid, ties going to the value with an even
  significand.
\<close>

datatype double = NaN | Infinite bool | Finite bool rat

definition pow2 :: "int \<Rightarrow> rat" where
  "pow2 e = (if 0 \<le> e then 2 ^ nat e else 1 / 2 ^ nat (- e))"

text \<open>The number of binary digits of a positive integer.\<close>

function bitLength :: "int \<Rightarrow> int" where
  "bitLength n = (if n \<le> 0 then 0 else 1 + bitLength (n div 2))"
  by pat_completeness auto
termination
  by (relation "measure nat") auto

declare bitLength.simps [simp del]

text \<open>The exponent \<open>e\<close> with \<open>2^e \<le> x < 2^(e+1)\<close>, for a positive \<open>x\<close>.\<close>

definition floorLog2 :: "rat \<Rightarrow> int" where
  "floorLog2 x = (if 1 \<le> x then bitLength \<lfloor>x\<rfloor> - 1 else - bitLength (\<lceil>1 / x\<rceil> - 1))"

definition roundHalfEven :: "rat \<Rightarrow> int" where
  "roundHalfEven q =
     (let f = \<lfloor>q\<rfloor>; d = q - of_int f
      in if d < 1 / 2 then f else if 1 / 2 < d then f + 1 else if even f then f else f + 1)"

text \<open>
  Rounding of a magnitude \<open>x \<ge> 0\<close>: the significand has 53 bits, the exponent of a
  normal number lies between -1022 and 1023, below that the grid has the fixed step
  \<open>2^-1074\<close>, and a result of \<open>2^1024\<close> or more is an infinity.
\<close>

definition roundDouble :: "bool \<Rightarrow> rat \<Rightarrow> double" where
  "roundDouble negative x =
     (if x = 0 then Finite negative 0
      else
        (let e = max (floorLog2 x) (- 1022);
             n = roundHalfEven (x / pow2 (e - 52))
         in if 1023 < e \<or> (e = 1023 \<and> n = 2 ^ 53) then Infinite negative
            else Finite negative (of_int n * pow2 (e - 52))))"

text \<open>The value of a numeric literal, and of an integer read from JSON.\<close>

definition ofRat :: "rat \<Rightarrow> double" where
  "ofRat x = roundDouble (x < 0) \<bar>x\<bar>"

definition ofNat :: "nat \<Rightarrow> double" where
  "ofNat n = ofRat (of_nat n)"

text \<open>\<open>x * y\<close>\<close>

fun dmul :: "double \<Rightarrow> double \<Rightarrow> double" where
  "dmul (Finite a x) (Finite b y) = roundDouble (a \<noteq> b) (x * y)"
| "dmul (Infinite a) (Infinite b) = Infinite (a \<noteq> b)"
| "dmul (Infinite a) (Finite b y) = (if y = 0 then NaN else Infinite (a \<noteq> b))"
| "dmul (Finite a x) (Infinite b) = (if x = 0 then NaN else Infinite (a \<noteq> b))"
| "dmul NaN y = NaN"
| "dmul x NaN = NaN"

text \<open>\<open>x / y\<close>\<close>

fun ddiv :: "double \<Rightarrow> double \<Rightarrow> double" where
  "ddiv (Finite a x) (Finite b y) =
     (if y = 0 then (if x = 0 then NaN else Infinite (a \<noteq> b))
      else roundDouble (a \<noteq> b) (x / y))"
| "ddiv (Infinite a) (Infinite b) = NaN"
| "ddiv (Infinite a) (Finite b y) = Infinite (a \<noteq> b)"
| "ddiv (Finite a x) (Infinite b) = Finite (a \<noteq> b) 0"
| "ddiv NaN y = NaN"
| "ddiv x NaN = NaN"

definition signed :: "bool \<Rightarrow> rat \<Rightarrow> rat" where
  "signed negative x = (if negative then - x else x)"

text \<open>\<open>x + y\<close>: an exact sum of zero is \<open>-0\<close> only when both operands are \<open>-0\<close>.\<close>

fun dadd :: "double \<Rightarrow> double \<Rightarrow> double" where
  "dadd (Finite a x) (Finite b y) =
     (let s = signed a x + signed b y
      in if s = 0 then Finite (a \<and> b) 0 else roundDouble (s < 0) \<bar>s\<bar>)"
| "dadd (Infinite a) (Infinite b) = (if a = b then Infinite a else NaN)"
| "dadd (Infinite a) (Finite b y) = Infinite a"
| "dadd (Finite a x) (Infinite b) = Infinite b"
| "dadd NaN y = NaN"
| "dadd x NaN = NaN"

section \<open>Provider registry and model catalog (lib/providers/types.ts)\<close>

text \<open>
  Prices and costs are JavaScript numbers. Token counts, search counts and HTTP status codes
  are naturals; a count enters the cost arithmetic through \<open>ofNat\<close>. Strings are lists of
  8-bit characters; the strings the program compares are ASCII.
\<close>

datatype Provider = Anthropic | OpenAI | Gemini

datatype ModelTier = Cheap | Better

record ModelDefinition =
  modelId :: string
  displayName :: string
  provider :: Provider
  tier :: ModelTier
  inputCostPerMillion :: double
  outputCostPerMillion :: double

text \<open>The fields of \<open>ProviderConfig\<close> that the program reads outside of rendering.\<close>

record ProviderConfig =
  configId :: Provider
  configName :: string
  keyPrefix :: string
  storageKey :: string
  modelStorageKey :: string
  supportsWebSearch :: bool
  supportsCodeExecution :: bool

fun PROVIDERS :: "Provider \<Rightarrow> ProviderConfig" where
  "PROVIDERS Anthropic = \<lparr> configId = Anthropic, configName = ''Claude'', keyPrefix = ''sk-ant-'',
     storageKey = ''brain_anthropic_api_key'', modelStorageKey = ''brain_anthropic_model'',
     supportsWebSearch = True, supportsCodeExecution = True \<rparr>"
| "PROVIDERS OpenAI = \<lparr> configId = OpenAI, configName = ''OpenAI'', keyPrefix = ''sk-'',
     storageKey = ''brain_openai_api_key'', modelStorageKey = ''brain_openai_model'',
     supportsWebSearch = True, supportsCodeExecution = True \<rparr>"
| "PROVIDERS Gemini = \<lparr> configId = Gemini, configName = ''Gemini'', keyPrefix = ''AIza'',
     storageKey = ''brain_gemini_api_key'', modelStorageKey = ''brain_gemini_model'',
     supportsWebSearch = True, supportsCodeExecution = True \<rparr>"

definition MODELS :: "ModelDefinition list" where
  "MODELS =
   [ \<lparr> modelId = ''claude-haiku-4-5-20251001'', displayName = ''Haiku 4.5'',
       provider = Anthropic, tier = Cheap,
       inputCostPerMillion = ofRat 1, outputCostPerMillion = ofRat 5 \<rparr>,
     \<lparr> modelId = ''claude-sonnet-4-5-20250929'', displayName = ''Sonnet 4.5'',
       provider = Anthropic, tier = Better,
       inputCostPerMillion = ofRat 3, outputCostPerMillion = ofRat 15 \<rparr>,
     \<lparr> modelId = ''gpt-5-nano'', displayName = ''GPT-5 Nano'',
       provider = OpenAI, tier = Cheap,
       inputCostPerMillion = ofRat (5 / 100), outputCostPerMillion = ofRat (40 / 100) \<rparr>,
     \<lparr> modelId = ''gpt-5-mini'', displayName = ''GPT-5 Mini'',
       provider = OpenAI, tier = Better,
       inputCostPerMillion = ofRat (25 / 100), outputCostPerMillion = ofRat 2 \<rparr>,
     \<lparr> modelId = ''gemini-3-flash-preview'', displayName = ''Flash 3'',
       provider = Gemini, tier = Cheap,
       inputCostPerMillion = ofRat (50 / 100), outputCostPerMillion = ofRat 3 \<rparr>,
     \<lparr> modelId = ''gemini-3-pro-preview'', displayName = ''Pro 3 Preview'',
       provider = Gemini, tier = Better,
       inputCostPerMillion = ofRat 2, outputCostPerMillion = ofRat 12 \<rparr> ]"

definition ACTIVE_PROVIDER :: string where
  "ACTIVE_PROVIDER = ''brain_api_provider''"

definition WEB_SEARCH_COST :: double where
  "WEB_SEARCH_COST = ofRat (1 / 100)"

definition getModelById :: "string \<Rightarrow> ModelDefinition option" where
  "getModelById i = find (\<lambda>m. modelId m = i) MODELS"

definition getModelsForProvider :: "Provider \<Rightarrow> ModelDefinition list" where
  "getModelsForProvider p = filter (\<lambda>m. provider m = p) MODELS"

text \<open>
  \<open>models.find(m => m.tier === 'cheap') || models[0]\<close>: \<open>None\<close> is JavaScript's
  \<open>undefined\<close>, the value of \<open>models[0]\<close> on an empty array.
\<close>

definition getDefaultModelForProvider :: "Provider \<Rightarrow> ModelDefinition option" where
  "getDefaultModelForProvider p =
     (let models = getModelsForProvider p in
      case find (\<lambda>m. tier m = Cheap) models of
        Some m \<Rightarrow> Some m
      | None \<Rightarrow> (case models of [] \<Rightarrow> None | m # _ \<Rightarrow> Some m))"

text \<open>
  \<open>calculateCost\<close>: the fourth argument defaults to 0 at the call sites that omit it. The
  sum is evaluated from the left, as JavaScript does.
\<close>

definition calculateCost :: "double \<Rightarrow> double \<Rightarrow> string \<Rightarrow> double \<Rightarrow> double" where
  "calculateCost inputTokens outputTokens i webSearches =
     (case getModelById i of
        None \<Rightarrow> ofRat 0
      | Some model \<Rightarrow>
          (let inputCost = dmul (ddiv inputTokens (ofRat 1000000)) (inputCostPerMillion model);
               outputCost = dmul (ddiv outputTokens (ofRat 1000000)) (outputCostPerMillion model);
               searchCost = dmul webSearches WEB_SEARCH_COST
           in dadd (dadd inputCost outputCost) searchCost))"

definition getAllProviders :: "Provider list" where
  "getAllProviders = [Anthropic, OpenAI, Gemini]"

section \<open>Persisted preferences (lib/providers/index.ts)\<close>

text \<open>
  \<open>localStorage\<close> is a finite map from keys to strings. \<open>safeLocalStorage()\<close> yields
  the store or \<open>null\<close>; every operation below takes that value (\<open>None\<close> for
  \<open>null\<close>) and the mutating ones return it updated.
\<close>

type_synonym storage = "string \<rightharpoonup> string"

text \<open>Truthiness of \<open>storage.getItem(k)\<close>: present and not the empty string.\<close>

definition truthyItem :: "storage \<Rightarrow> string \<Rightarrow> bool" where
  "truthyItem st k = (case st k of None \<Rightarrow> False | Some v \<Rightarrow> v \<noteq> [])"

definition parseProvider :: "string \<Rightarrow> Provider option" where
  "parseProvider saved =
     (if saved = ''anthropic'' then Some Anthropic
      else if saved = ''openai'' then Some OpenAI
      else if saved = ''gemini'' then Some Gemini
      else None)"

definition providerName :: "Provider \<Rightarrow> string" where
  "providerName p = (case p of Anthropic \<Rightarrow> ''anthropic'' | OpenAI \<Rightarrow> ''openai'' | Gemini \<Rightarrow> ''gemini'')"

text \<open>The fallback loop of \<open>getActiveProvider\<close> over \<open>getAllProviders()\<close>.\<close>

fun firstConfigured :: "storage \<Rightarrow> Provider list \<Rightarrow> Provider option" where
  "firstConfigured st [] = None"
| "firstConfigured st (p # ps) =
     (if truthyItem st (storageKey (PROVIDERS p)) then Some p else firstConfigured st ps)"

definition getActiveProvider :: "storage option \<Rightarrow> Provider" where
  "getActiveProvider so =
     (case so of
        None \<Rightarrow> Anthropic
      | Some st \<Rightarrow>
          (let saved = (case st ACTIVE_PROVIDER of None \<Rightarrow> None | Some s \<Rightarrow> parseProvider s) in
           case (case saved of
                   Some p \<Rightarrow> if truthyItem st (storageKey (PROVIDERS p)) then Some p else None
                 | None \<Rightarrow> None) of
             Some p \<Rightarrow> p
           | None \<Rightarrow>
               (case firstConfigured st getAllProviders of
                  Some p \<Rightarrow> p
                | None \<Rightarrow> Anthropic)))"

definition setActiveProvider :: "Provider \<Rightarrow> storage option \<Rightarrow> storage option" where
  "setActiveProvider p so =
     (case so of None \<Rightarrow> None | Some st \<Rightarrow> Some (st(ACTIVE_PROVIDER \<mapsto> providerName p)))"

definition getApiKey :: "storage option \<Rightarrow> Provider \<Rightarrow> string option" where
  "getApiKey so p = (case so of None \<Rightarrow> None | Some st \<Rightarrow> st (storageKey (PROVIDERS p)))"

definition setApiKey :: "Provider \<Rightarrow> string \<Rightarrow> storage option \<Rightarrow> storage option" where
  "setApiKey p key so =
     (case so of None \<Rightarrow> None | Some st \<Rightarrow> Some (st(storageKey (PROVIDERS p) \<mapsto> key)))"

definition clearApiKey :: "Provider \<Rightarrow> storage option \<Rightarrow> storage option" where
  "clearApiKey p so =
     (case so of None \<Rightarrow> None | Some st \<Rightarrow> Some (st(storageKey (PROVIDERS p) := None)))"

text \<open>\<open>!!getApiKey(provider)\<close>\<close>

definition hasApiKey :: "storage option \<Rightarrow> Provider \<Rightarrow> bool" where
  "hasApiKey so p = (case getApiKey so p of None \<Rightarrow> False | Some v \<Rightarrow> v \<noteq> [])"

text \<open>
  \<open>getSelectedModel\<close> ends in \<open>getDefaultModelForProvider(provider).id\<close>; reading
  \<open>.id\<close> of \<open>undefined\<close> raises a TypeError, which is the result \<open>None\<close>.
\<close>

definition getSelectedModel :: "storage option \<Rightarrow> Provider \<Rightarrow> string option" where
  "getSelectedModel so p =
     (let dflt = map_option modelId (getDefaultModelForProvider p) in
      case so of
        None \<Rightarrow> dflt
      | Some st \<Rightarrow>
          (case st (modelStorageKey (PROVIDERS p)) of
             None \<Rightarrow> dflt
           | Some saved \<Rightarrow>
               if saved \<noteq> [] \<and> list_ex (\<lambda>m. modelId m = saved) (getModelsForProvider p)
               then Some saved else dflt))"

definition setSelectedModel :: "Provider \<Rightarrow> string \<Rightarrow> storage option \<Rightarrow> storage option" where
  "setSelectedModel p i so =
     (case so of None \<Rightarrow> None | Some st \<Rightarrow> Some (st(modelStorageKey (PROVIDERS p) \<mapsto> i)))"

text \<open>
  The effect on the store of the provider picker of the settings page
  (\<open>handleProviderChange\<close> in app/i/settings/page.tsx): a provider without a key opens the
  key dialog and returns before \<open>setActiveProvider\<close> is reached.
\<close>

definition handleProviderChange :: "Provider \<Rightarrow> storage option \<Rightarrow> storage option" where
  "handleProviderChange p so = (if \<not> hasApiKey so p then so else setActiveProvider p so)"

section \<open>Key validation (validateKey of the three adapters)\<close>

text \<open>
  A value raised by \<open>throw\<close> or a rejected promise: an \<open>Error\<close> object with its
  \<open>name\<close> and \<open>message\<close>, or some other value.
\<close>

datatype thrown = JsError (errName: string) (errMessage: string) | NonError

text \<open>
  What \<open>response.json()\<close> gives for the body of a failed request, as far as the code looks
  at it: the body is not JSON (the promise rejects and \<open>catch(() => ({}))\<close> substitutes an
  empty object), the body is the JSON value \<open>null\<close> (reading \<open>error.error\<close> then
  raises a TypeError whose message, fixed by the JavaScript engine, the value carries), or
  the body is any other JSON value, with the value of \<open>error.error?.message\<close> when it has
  one (a string).
\<close>

datatype json_body = NotJson | JsonNull string | JsonValue "string option"

text \<open>The outcome of \<open>await fetch(...)\<close>: rejection, or a response with its status.\<close>

datatype fetch_result = FetchRejects thrown | Response nat json_body

record KeyValidationResult =
  valid :: bool
  error :: "string option"

definition digitChar :: "nat \<Rightarrow> char" where
  "digitChar d = ''0123456789'' ! (d mod 10)"

text \<open>Decimal rendering of a status code inside a template literal.\<close>

function showNat :: "nat \<Rightarrow> string" where
  "showNat n = (if n < 10 then [digitChar n] else showNat (n div 10) @ [digitChar (n mod 10)])"
  by pat_completeness auto
termination
  by (relation "measure id") auto

declare showNat.simps [simp del]

definition responseOk :: "nat \<Rightarrow> bool" where
  "responseOk status = (200 \<le> status \<and> status \<le> 299)"

text \<open>
  \<open>error.error?.message || `API error: ${response.status}`\<close>; \<open>Inl\<close> is the TypeError
  of a \<open>null\<close> body.
\<close>

definition apiErrorMessage :: "json_body \<Rightarrow> nat \<Rightarrow> thrown + string" where
  "apiErrorMessage body status =
     (case body of
        JsonNull msg \<Rightarrow> Inl (JsError ''TypeError'' msg)
      | NotJson \<Rightarrow> Inr (''API error: '' @ showNat status)
      | JsonValue None \<Rightarrow> Inr (''API error: '' @ showNat status)
      | JsonValue (Some m) \<Rightarrow> Inr (if m \<noteq> [] then m else ''API error: '' @ showNat status))"

text \<open>\<open>err instanceof Error ? err.message : dflt\<close>\<close>

definition messageOr :: "thrown \<Rightarrow> string \<Rightarrow> string" where
  "messageOr e dflt = (case e of JsError n m \<Rightarrow> m | NonError \<Rightarrow> dflt)"

definition validateCaught :: "thrown \<Rightarrow> KeyValidationResult" where
  "validateCaught e = \<lparr> valid = False, error = Some (messageOr e ''Failed to validate key'') \<rparr>"

definition validateOther :: "json_body \<Rightarrow> nat \<Rightarrow> KeyValidationResult" where
  "validateOther body status =
     (case apiErrorMessage body status of
        Inl e \<Rightarrow> validateCaught e
      | Inr m \<Rightarrow> \<lparr> valid = False, error = Some m \<rparr>)"

text \<open>
  Each \<open>validateKey\<close> takes the outcome of its one request; the key only travels in that
  request.
\<close>

definition anthropic_validateKey :: "fetch_result \<Rightarrow> KeyValidationResult" where
  "anthropic_validateKey r =
     (case r of
        FetchRejects e \<Rightarrow> validateCaught e
      | Response status body \<Rightarrow>
          if responseOk status then \<lparr> valid = True, error = None \<rparr>
          else if status = 401 then \<lparr> valid = False, error = Some ''Invalid API key'' \<rparr>
          else if status = 403 then
            \<lparr> valid = False, error = Some ''API key lacks required permissions'' \<rparr>
          else validateOther body status)"

definition openai_validateKey :: "fetch_result \<Rightarrow> KeyValidationResult" where
  "openai_validateKey r =
     (case r of
        FetchRejects e \<Rightarrow> validateCaught e
      | Response status body \<Rightarrow>
          if responseOk status then \<lparr> valid = True, error = None \<rparr>
          else if status = 401 then \<lparr> valid = False, error = Some ''Invalid API key'' \<rparr>
          else validateOther body status)"

definition gemini_validateKey :: "fetch_result \<Rightarrow> KeyValidationResult" where
  "gemini_validateKey r =
     (case r of
        FetchRejects e \<Rightarrow> validateCaught e
      | Response status body \<Rightarrow>
          if responseOk status then \<lparr> valid = True, error = None \<rparr>
          else if status = 400 \<or> status = 403 then
            \<lparr> valid = False, error = Some ''Invalid API key'' \<rparr>
          else validateOther body status)"

section \<open>File discovery and the directory listing (lib/brain-chat.ts)\<close>

datatype NodeType = File | Dir


definition isDigit :: "char \<Rightarrow> bool" where
  "isDigit c = (c \<in> set ''0123456789'')"

definition digitValue :: "char \<Rightarrow> int" where
  "digitValue c = of_char c - 48"

text \<open>\<open>path.match(/(\d{8})/)\<close>: the leftmost run of eight digits, if there is one.\<close>

fun match8 :: "string \<Rightarrow> string option" where
  "match8 [] = None"
| "match8 (c # cs) =
     (if 8 \<le> length (c # cs) \<and> list_all isDigit (take 8 (c # cs))
      then Some (take 8 (c # cs)) else match8 cs)"

text \<open>\<open>parseInt(digits, 10)\<close> on a string of decimal digits.\<close>

definition parseInt10 :: "string \<Rightarrow> int" where
  "parseInt10 ds = foldl (\<lambda>n c. 10 * n + digitValue c) 0 ds"

definition extractDateFromPath :: "string \<Rightarrow> int" where
  "extractDateFromPath path = (case match8 path of Some m \<Rightarrow> parseInt10 m | None \<Rightarrow> 0)"

text \<open>
  \<open>Array.prototype.sort\<close> with a comparator: a stable sort, an element \<open>a\<close> staying
  before \<open>b\<close> unless the comparator is positive on \<open>(a, b)\<close>.
\<close>

fun insertBy :: "('a \<Rightarrow> 'a \<Rightarrow> int) \<Rightarrow> 'a \<Rightarrow> 'a list \<Rightarrow> 'a list" where
  "insertBy cmp x [] = [x]"
| "insertBy cmp x (y # ys) = (if cmp x y \<le> 0 then x # y # ys else y # insertBy cmp x ys)"

definition sortBy :: "('a \<Rightarrow> 'a \<Rightarrow> int) \<Rightarrow> 'a list \<Rightarrow> 'a list" where
  "sortBy cmp xs = foldr (insertBy cmp) xs []"

text \<open>
  The part of \<open>buildSystemPrompt\<close> that orders one folder's paths and picks its examples:
  \<open>dirPaths\<close> are the full paths grouped under one directory.
\<close>

definition sortedPaths :: "string list \<Rightarrow> string list" where
  "sortedPaths dirPaths =
     sortBy (\<lambda>a b. extractDateFromPath b - extractDateFromPath a) dirPaths"

text \<open>\<open>ex.split('/').pop() || ex\<close>\<close>

definition fileNameOf :: "string \<Rightarrow> string" where
  "fileNameOf ex =
     (let seg = rev (takeWhile (\<lambda>c. c \<noteq> CHR ''/'') (rev ex)) in if seg = [] then ex else seg)"

definition examples :: "string list \<Rightarrow> string list" where
  "examples dirPaths = map fileNameOf (take 3 (sortedPaths dirPaths))"



text \<open>
  \<open>includesStr s sub\<close> is \<open>s.includes(sub)\<close>; \<open>s.startsWith(p)\<close> is \<open>prefix p s\<close>
  and \<open>s.endsWith(p)\<close> is \<open>suffix p s\<close>.
\<close>

fun includesStr :: "string \<Rightarrow> string \<Rightarrow> bool" where
  "includesStr [] sub = (sub = [])"
| "includesStr (c # cs) sub = (prefix sub (c # cs) \<or> includesStr cs sub)"











section \<open>The callback contract shared by the adapters (lib/providers/types.ts)\<close>

text \<open>
  A value that the schema of its source declares a string: it is a string, the JSON value
  \<open>null\<close>, or missing (\<open>undefined\<close>). \<open>truthy\<close> is its test in a condition,
  \<open>orElse v d\<close> is \<open>v || d\<close>, and \<open>render\<close> is its text inside a template literal.
\<close>

datatype jsval = Str string | Null | Undefined

fun truthy :: "jsval \<Rightarrow> bool" where
  "truthy (Str s) = (s \<noteq> [])"
| "truthy Null = False"
| "truthy Undefined = False"

fun orElse :: "jsval \<Rightarrow> string \<Rightarrow> string" where
  "orElse (Str s) d = (if s \<noteq> [] then s else d)"
| "orElse Null d = d"
| "orElse Undefined d = d"

fun render :: "jsval \<Rightarrow> string" where
  "render (Str s) = s"
| "render Null = ''null''"
| "render Undefined = ''undefined''"

text \<open>\<open>n || d\<close> for a number that may be missing: 0 is falsy.\<close>

fun numOr :: "nat option \<Rightarrow> nat \<Rightarrow> nat" where
  "numOr (Some n) d = (if n \<noteq> 0 then n else d)"
| "numOr None d = d"

record UsageData =
  inputTokens :: nat
  outputTokens :: nat
  webSearches :: nat
  cost :: double

text \<open>
  One constructor for each member of \<open>StreamCallbacks\<close> that an adapter calls. A run of
  \<open>sendMessage\<close> is observed as the list of its callback invocations, in order; every
  callback is taken to be supplied and to return normally.
\<close>

datatype callback =
    OnStart
  | OnToken string
  | OnComplete string
  | OnError string
  | OnUsage UsageData
  | OnWebSearch string
  | OnWebSearchResults nat
  | OnCodeExecution string
  | OnCodeExecutionComplete
  | OnToolError string string
  | OnFileLoad jsval
  | OnFileLoaded jsval bool

fun isOnComplete :: "callback \<Rightarrow> bool" where
  "isOnComplete (OnComplete t) = True"
| "isOnComplete c = False"

fun isOnError :: "callback \<Rightarrow> bool" where
  "isOnError (OnError m) = True"
| "isOnError c = False"

text \<open>
  The injected file loader, called with a one-element array: it rejects, or resolves to the
  array of files it found. Its answer is a function of the requested path.
\<close>

record FileEntry =
  filePath :: string
  fileContent :: string

datatype loader_outcome = LoaderThrows thrown | LoaderReturns "FileEntry list"

type_synonym loader = "jsval \<Rightarrow> loader_outcome"

text \<open>
  \<open>JSON.parse\<close> of accumulated tool arguments, as far as the adapters look at the result:
  a SyntaxError with its message, or a value. The value is \<open>null\<close>, and reading its
  \<open>path\<close> raises a TypeError whose message, fixed by the JavaScript engine, the value
  carries; or it is any other value, with its \<open>path\<close> and \<open>query\<close> properties. The
  parser is a parameter of the model.
\<close>

datatype tool_input = NullInput string | Input (inputPath: jsval) (inputQuery: jsval)

datatype parsed_args = ParseError string | Parsed tool_input

type_synonym json_parse = "string \<Rightarrow> parsed_args"

datatype role = User | Assistant

text \<open>
  The members of \<open>SendMessageOptions\<close> that decide the callbacks and the conversation.
  \<open>abortSignal\<close> shows in the model as requests and reads that reject with an AbortError.
\<close>

record SendMessageOptions =
  messages :: "(role \<times> string) list"
  systemPrompt :: string
  optModelId :: string
  loadFileContents :: "loader option"

text \<open>
  What the network gives for one streaming request: \<open>fetch\<close> rejects; the response is
  not ok; the response has no body; or the body is read, giving the events of its complete
  \<open>data:\<close> lines that parse as JSON, in order, after which the stream ends
  (\<open>None\<close>) or a read rejects. Lines that are not \<open>data:\<close> lines, lines whose JSON
  does not parse and the text after the last newline are skipped by the adapters and are no
  events. An event follows its vendor's schema: what the code reads as text is a string or
  missing, a token count is a natural number or missing. A turn is run against the list of
  these outcomes, one for each request the adapter makes.
\<close>

datatype 'e round =
    FetchFails thrown
  | HttpError nat json_body
  | NoBody
  | Streamed "'e list" "thrown option"

text \<open>
  How \<open>makeStreamingRequest\<close> ends: it returns, it throws, or it still awaits a response
  when the list of outcomes is used up.
\<close>

datatype completion = Returned | Threw thrown | Pending

text \<open>\<open>throw new Error(error.error?.message || `API error: ${response.status}`)\<close>\<close>

definition httpFailure :: "json_body \<Rightarrow> nat \<Rightarrow> thrown" where
  "httpFailure body status =
     (case apiErrorMessage body status of Inl e \<Rightarrow> e | Inr m \<Rightarrow> JsError ''Error'' m)"

definition isAbortError :: "thrown \<Rightarrow> bool" where
  "isAbortError e = (case e of JsError n m \<Rightarrow> n = ''AbortError'' | NonError \<Rightarrow> False)"

definition usageCallbacks :: "string \<Rightarrow> nat \<Rightarrow> nat \<Rightarrow> nat \<Rightarrow> callback list" where
  "usageCallbacks model tin tout searches =
     (if 0 < tin \<or> 0 < tout
      then [OnUsage \<lparr> inputTokens = tin, outputTokens = tout, webSearches = searches,
                      cost = calculateCost (ofNat tin) (ofNat tout) model (ofNat searches) \<rparr>]
      else [])"

definition newline :: char where
  "newline = CHR 0x0A"

definition fileResult :: "FileEntry \<Rightarrow> string" where
  "fileResult file = ''File: '' @ filePath file @ [newline, newline] @ fileContent file"

definition couldNotLoad :: "jsval \<Rightarrow> string" where
  "couldNotLoad path =
     ''Error: Could not load file '' @ [CHR 0x22] @ render path @ [CHR 0x22]
       @ ''. Make sure the path is correct.''"

definition errorLoading :: "string \<Rightarrow> string" where
  "errorLoading msg = ''Error loading file: '' @ msg"

text \<open>
  The body of the \<open>try\<close> after the path is known, shared by the three adapters: the text
  of the tool result and the flag passed to \<open>onFileLoaded\<close>, or the exception of the
  loader.
\<close>

definition loadOne :: "loader \<Rightarrow> jsval \<Rightarrow> thrown + (string \<times> bool)" where
  "loadOne load path =
     (case load path of
        LoaderThrows e \<Rightarrow> Inl e
      | LoaderReturns files \<Rightarrow>
          (case files of
             file # _ \<Rightarrow>
               if \<not> prefix ''[Error'' (fileContent file) then Inr (fileResult file, True)
               else Inr (couldNotLoad path, False)
           | [] \<Rightarrow> Inr (couldNotLoad path, False)))"

section \<open>Anthropic adapter (lib/providers/anthropic.ts)\<close>

datatype content_block =
    ToolUse string string
  | ServerToolUse string
  | CodeExecutionToolResult
  | CodeExecutionToolResultError jsval
  | WebSearchToolResultError jsval
  | WebSearchToolResult "nat option"
  | OtherBlock

datatype block_delta = TextDelta jsval | InputJsonDelta jsval | OtherDelta

text \<open>
  A parsed event of the Anthropic stream. \<open>ToolUse i n\<close> carries \<open>block.id || ''\<close> and
  \<open>block.name || ''\<close>; \<open>WebSearchToolResult (Some k)\<close> has an array of \<open>k\<close> search
  results; \<open>MessageStart u\<close> carries \<open>message.usage.input_tokens\<close>, \<open>MessageDelta u r\<close>
  carries \<open>usage.output_tokens\<close> and \<open>delta.stop_reason\<close>.
\<close>

datatype a_event =
    ContentBlockStart content_block
  | ContentBlockDelta block_delta
  | ContentBlockStop
  | MessageStart "nat option"
  | MessageDelta "nat option" jsval
  | OtherEvent

datatype a_block =
    AText string
  | AToolUse string string string
  | AToolResult string string

datatype a_content = AString string | ABlocks "a_block list"

datatype a_message = AMessage string a_content

record a_pending =
  a_id :: string
  a_name :: string
  a_input :: tool_input

text \<open>
  The local variables of \<open>makeStreamingRequest\<close> while it reads the stream, and the
  callbacks made so far. A \<open>tool_use\<close> block keeps the text its \<open>input\<close> was parsed from.
\<close>

record a_state =
  a_fullResponse :: string
  a_currentToolId :: string
  a_currentToolName :: string
  a_currentToolInput :: string
  a_webSearchCount :: nat
  a_inputTokens :: nat
  a_outputTokens :: nat
  a_stopReason :: string
  a_pendingToolCalls :: "a_pending list"
  a_contentBlocks :: "a_block list"
  a_trace :: "callback list"

definition a_emit :: "callback list \<Rightarrow> a_state \<Rightarrow> a_state" where
  "a_emit cs s = s\<lparr> a_trace := a_trace s @ cs \<rparr>"

fun a_blockStart :: "content_block \<Rightarrow> a_state \<Rightarrow> a_state" where
  "a_blockStart (ToolUse i n) s =
     a_emit (if n = ''load_file'' then [OnFileLoad (Str ''Loading file...'')] else [])
       (s\<lparr> a_currentToolId := i, a_currentToolName := n, a_currentToolInput := [] \<rparr>)"
| "a_blockStart (ServerToolUse n) s =
     a_emit (if n = ''web_search'' then [OnWebSearch ''Searching the web...'']
             else if n = ''code_execution'' then [OnCodeExecution ''Running code...'']
             else [])
       (s\<lparr> a_currentToolName := n \<rparr>)"
| "a_blockStart CodeExecutionToolResult s = a_emit [OnCodeExecutionComplete] s"
| "a_blockStart (CodeExecutionToolResultError m) s =
     a_emit [OnToolError ''code_execution'' (orElse m ''Code execution failed'')] s"
| "a_blockStart (WebSearchToolResultError m) s =
     a_emit [OnToolError ''web_search'' (orElse m ''Web search failed'')] s"
| "a_blockStart (WebSearchToolResult (Some k)) s =
     a_emit [OnWebSearchResults k] (s\<lparr> a_webSearchCount := a_webSearchCount s + 1 \<rparr>)"
| "a_blockStart (WebSearchToolResult None) s = s"
| "a_blockStart OtherBlock s = s"

fun a_blockDelta :: "json_parse \<Rightarrow> block_delta \<Rightarrow> a_state \<Rightarrow> a_state" where
  "a_blockDelta parse (TextDelta t) s =
     (if truthy t
      then a_emit [OnToken (render t)] (s\<lparr> a_fullResponse := a_fullResponse s @ render t \<rparr>)
      else s)"
| "a_blockDelta parse (InputJsonDelta j) s =
     (if truthy j then
        (let s' = s\<lparr> a_currentToolInput := a_currentToolInput s @ render j \<rparr> in
         if a_currentToolName s' = ''load_file'' then
           (case parse (a_currentToolInput s') of
              Parsed (Input path query) \<Rightarrow> if truthy path then a_emit [OnFileLoad path] s' else s'
            | Parsed (NullInput _) \<Rightarrow> s'
            | ParseError _ \<Rightarrow> s')
         else if a_currentToolName s' = ''web_search'' then
           (case parse (a_currentToolInput s') of
              Parsed (Input path query) \<Rightarrow>
                if truthy query then a_emit [OnWebSearch (render query)] s' else s'
            | Parsed (NullInput _) \<Rightarrow> s'
            | ParseError _ \<Rightarrow> s')
         else s')
      else s)"
| "a_blockDelta parse OtherDelta s = s"

definition a_blockStop :: "json_parse \<Rightarrow> a_state \<Rightarrow> a_state" where
  "a_blockStop parse s =
     (let s' =
        (if a_currentToolName s = ''load_file'' \<and> a_currentToolId s \<noteq> [] \<and> a_currentToolInput s \<noteq> []
         then (case parse (a_currentToolInput s) of
                 Parsed input \<Rightarrow>
                   s\<lparr> a_pendingToolCalls := a_pendingToolCalls s @
                        [\<lparr> a_id = a_currentToolId s, a_name = a_currentToolName s, a_input = input \<rparr>],
                      a_contentBlocks := a_contentBlocks s @
                        [AToolUse (a_currentToolId s) (a_currentToolName s) (a_currentToolInput s)] \<rparr>
               | ParseError _ \<Rightarrow> s)
         else s)
      in s'\<lparr> a_currentToolId := [], a_currentToolName := [], a_currentToolInput := [] \<rparr>)"

fun a_handle :: "json_parse \<Rightarrow> a_state \<Rightarrow> a_event \<Rightarrow> a_state" where
  "a_handle parse s (ContentBlockStart b) = a_blockStart b s"
| "a_handle parse s (ContentBlockDelta d) = a_blockDelta parse d s"
| "a_handle parse s ContentBlockStop = a_blockStop parse s"
| "a_handle parse s (MessageStart u) = s\<lparr> a_inputTokens := a_inputTokens s + numOr u 0 \<rparr>"
| "a_handle parse s (MessageDelta u r) =
     (let s' = s\<lparr> a_outputTokens := a_outputTokens s + numOr u 0 \<rparr>
      in if truthy r then s'\<lparr> a_stopReason := render r \<rparr> else s')"
| "a_handle parse s OtherEvent = s"

definition a_start :: "nat \<Rightarrow> nat \<Rightarrow> nat \<Rightarrow> string \<Rightarrow> a_state" where
  "a_start totalInputTokens totalOutputTokens totalWebSearches accumulatedResponse =
     \<lparr> a_fullResponse = accumulatedResponse, a_currentToolId = [], a_currentToolName = [],
       a_currentToolInput = [], a_webSearchCount = totalWebSearches,
       a_inputTokens = totalInputTokens, a_outputTokens = totalOutputTokens,
       a_stopReason = [], a_pendingToolCalls = [], a_contentBlocks = [], a_trace = [] \<rparr>"

text \<open>
  One iteration of the loop over \<open>pendingToolCalls\<close>: the tool results and callbacks it
  adds. \<open>toolCall.input.path\<close> is read outside the \<open>try\<close>: on a \<open>null\<close> input the
  TypeError leaves the loop.
\<close>

definition a_resolve :: "loader \<Rightarrow> a_pending \<Rightarrow> thrown + (a_block list \<times> callback list)" where
  "a_resolve load toolCall =
     (if a_name toolCall = ''load_file'' then
        (case a_input toolCall of
           NullInput msg \<Rightarrow> Inl (JsError ''TypeError'' msg)
         | Input path query \<Rightarrow>
             (case loadOne load path of
                Inr (text, ok) \<Rightarrow>
                  Inr ([AToolResult (a_id toolCall) text], [OnFileLoad path, OnFileLoaded path ok])
              | Inl err \<Rightarrow>
                  Inr ([AToolResult (a_id toolCall) (errorLoading (messageOr err ''Unknown error''))],
                       [OnFileLoad path, OnFileLoaded path False])))
      else Inr ([], []))"

text \<open>
  The loop over \<open>pendingToolCalls\<close>: the exception that ended it, if any, with the tool
  results collected and the callbacks made until then.
\<close>

fun a_resolveAll :: "loader \<Rightarrow> a_pending list \<Rightarrow> thrown option \<times> a_block list \<times> callback list" where
  "a_resolveAll load [] = (None, [], [])"
| "a_resolveAll load (toolCall # toolCalls) =
     (case a_resolve load toolCall of
        Inl e \<Rightarrow> (Some e, [], [])
      | Inr (results, calls) \<Rightarrow>
          (case a_resolveAll load toolCalls of
             (failure, toolResults, loaded) \<Rightarrow> (failure, results @ toolResults, calls @ loaded)))"

text \<open>
  The tool branch up to the recursive call: every pending call is resolved in order, the
  assistant message with the \<open>tool_use\<close> blocks and the user message with the tool
  results are appended to the conversation. The result is the exception of the loop, if
  any, the new conversation and the callbacks made on the way.
\<close>

definition a_toolRound ::
  "loader \<Rightarrow> a_state \<Rightarrow> a_message list \<Rightarrow> thrown option \<times> a_message list \<times> callback list" where
  "a_toolRound load s currentMessages =
     (case a_resolveAll load (a_pendingToolCalls s) of
        (failure, toolResults, loaded) \<Rightarrow>
          (let assistantContent =
                 (if a_fullResponse s \<noteq> [] then [AText (a_fullResponse s)] else [])
                 @ a_contentBlocks s;
               updatedMessages = currentMessages @
                 [AMessage ''assistant'' (ABlocks assistantContent),
                  AMessage ''user'' (ABlocks toolResults)]
           in (failure, updatedMessages, loaded)))"

text \<open>The final branch: the usage report, if any token was counted, then \<open>onComplete\<close>.\<close>

definition a_finish :: "SendMessageOptions \<Rightarrow> a_state \<Rightarrow> callback list" where
  "a_finish opts s =
     a_trace s
     @ usageCallbacks (optModelId opts) (a_inputTokens s) (a_outputTokens s) (a_webSearchCount s)
     @ [OnComplete (a_fullResponse s)]"

fun a_makeStreamingRequest ::
  "json_parse \<Rightarrow> SendMessageOptions \<Rightarrow> a_event round list \<Rightarrow> a_message list \<Rightarrow>
   nat \<Rightarrow> nat \<Rightarrow> nat \<Rightarrow> string \<Rightarrow> completion \<times> callback list \<times> a_message list list" where
  "a_makeStreamingRequest parse opts [] currentMessages tin tout tws acc =
     (Pending, [], [currentMessages])"
| "a_makeStreamingRequest parse opts (r # rs) currentMessages tin tout tws acc =
     (case r of
        FetchFails e \<Rightarrow> (Threw e, [], [currentMessages])
      | HttpError status body \<Rightarrow> (Threw (httpFailure body status), [], [currentMessages])
      | NoBody \<Rightarrow> (Threw (JsError ''Error'' ''No response body''), [], [currentMessages])
      | Streamed events failure \<Rightarrow>
          (let s = foldl (a_handle parse) (a_start tin tout tws acc) events in
           case failure of
             Some e \<Rightarrow> (Threw e, a_trace s, [currentMessages])
           | None \<Rightarrow>
               (case loadFileContents opts of
                  Some load \<Rightarrow>
                    if a_stopReason s = ''tool_use'' \<and> a_pendingToolCalls s \<noteq> [] then
                      (case a_toolRound load s currentMessages of
                         (Some e, updatedMessages, loaded) \<Rightarrow>
                           (Threw e, a_trace s @ loaded, [currentMessages])
                       | (None, updatedMessages, loaded) \<Rightarrow>
                           (case a_makeStreamingRequest parse opts rs updatedMessages
                                   (a_inputTokens s) (a_outputTokens s) (a_webSearchCount s)
                                   (a_fullResponse s) of
                              (c, tr, sent) \<Rightarrow>
                                (c, a_trace s @ loaded @ tr, currentMessages # sent)))
                    else
                      (Returned, a_finish opts s, [currentMessages])
                | None \<Rightarrow>
                    (Returned, a_finish opts s, [currentMessages]))))"

definition roleName :: "role \<Rightarrow> string" where
  "roleName r = (case r of User \<Rightarrow> ''user'' | Assistant \<Rightarrow> ''assistant'')"

text \<open>
  The \<open>try\<close>/\<open>catch\<close> around the first request, common to the adapters up to the text of
  the error: an AbortError is swallowed, any other exception goes to \<open>onError\<close>.
\<close>

definition a_catch :: "thrown \<Rightarrow> callback list" where
  "a_catch err =
     (if isAbortError err then [] else [OnError (messageOr err ''Failed to send message'')])"

text \<open>
  \<open>sendMessage\<close> itself never throws: its result says whether the promise settled
  (\<open>True\<close>) or the turn is still waiting for the network, with the callbacks made and the
  conversations sent.
\<close>

definition anthropic_sendMessage ::
  "json_parse \<Rightarrow> SendMessageOptions \<Rightarrow> a_event round list \<Rightarrow> bool \<times> callback list \<times> a_message list list" where
  "anthropic_sendMessage parse opts script =
     (case a_makeStreamingRequest parse opts script
             (map (\<lambda>(r, c). AMessage (roleName r) (AString c)) (messages opts)) 0 0 0 [] of
        (Returned, tr, sent) \<Rightarrow> (True, OnStart # tr, sent)
      | (Threw err, tr, sent) \<Rightarrow> (True, OnStart # tr @ a_catch err, sent)
      | (Pending, tr, sent) \<Rightarrow> (False, OnStart # tr, sent))"

section \<open>OpenAI adapter (lib/providers/openai.ts)\<close>

text \<open>
  One element of \<open>delta.tool_calls\<close>: \<open>index\<close>, \<open>id\<close>, \<open>function?.name\<close> and
  \<open>function?.arguments\<close>.
\<close>

record o_tool_delta =
  o_index :: "nat option"
  o_callId :: jsval
  o_callName :: jsval
  o_callArguments :: jsval

text \<open>
  A parsed chunk of the OpenAI stream: \<open>choices?.[0]?.delta\<close> with its \<open>content\<close> and
  \<open>tool_calls\<close>, \<open>choices?.[0]?.finish_reason\<close>, and \<open>usage\<close> with its
  \<open>prompt_tokens\<close> and \<open>completion_tokens\<close>.
\<close>

datatype o_delta = ODelta jsval "o_tool_delta list option"

record o_chunk =
  o_delta :: "o_delta option"
  o_finish :: jsval
  o_usage :: "(nat option \<times> nat option) option"

record o_pending =
  o_id :: string
  o_name :: string
  o_arguments :: string

datatype o_message =
    OMessage string string
  | OAssistant "string option" "o_pending list"
  | OTool string string

record o_state =
  o_fullResponse :: string
  o_inputTokens :: nat
  o_outputTokens :: nat
  o_pendingToolCalls :: "(nat \<times> o_pending) list"
  o_finishReason :: string
  o_trace :: "callback list"

text \<open>\<open>Map.prototype.set\<close> on a map kept in insertion order.\<close>

fun mapSet :: "nat \<Rightarrow> 'v \<Rightarrow> (nat \<times> 'v) list \<Rightarrow> (nat \<times> 'v) list" where
  "mapSet k v [] = [(k, v)]"
| "mapSet k v ((k', v') # kvs) = (if k' = k then (k, v) # kvs else (k', v') # mapSet k v kvs)"

text \<open>The body of the loop over \<open>delta.tool_calls\<close>.\<close>

definition o_toolCall :: "json_parse \<Rightarrow> o_state \<Rightarrow> o_tool_delta \<Rightarrow> o_state" where
  "o_toolCall parse s toolCall =
     (let index = (case o_index toolCall of Some i \<Rightarrow> i | None \<Rightarrow> 0);
          known = map_of (o_pendingToolCalls s) index;
          created = (case known of
                       Some p \<Rightarrow> p
                     | None \<Rightarrow> \<lparr> o_id = orElse (o_callId toolCall) [],
                                 o_name = orElse (o_callName toolCall) [], o_arguments = [] \<rparr>);
          announced = (case known of
                         Some p \<Rightarrow> []
                       | None \<Rightarrow> if o_callName toolCall = Str ''load_file''
                                 then [OnFileLoad (Str ''Loading file...'')] else []);
          p1 = (if truthy (o_callId toolCall) then created\<lparr> o_id := render (o_callId toolCall) \<rparr>
                else created);
          p2 = (if truthy (o_callName toolCall) then p1\<lparr> o_name := render (o_callName toolCall) \<rparr>
                else p1);
          p3 = (if truthy (o_callArguments toolCall)
                then p2\<lparr> o_arguments := o_arguments p2 @ render (o_callArguments toolCall) \<rparr>
                else p2);
          progress = (if truthy (o_callArguments toolCall) \<and> o_name p3 = ''load_file''
                      then (case parse (o_arguments p3) of
                              Parsed (Input path query) \<Rightarrow>
                                if truthy path then [OnFileLoad path] else []
                            | Parsed (NullInput _) \<Rightarrow> []
                            | ParseError _ \<Rightarrow> [])
                      else [])
      in s\<lparr> o_pendingToolCalls := mapSet index p3 (o_pendingToolCalls s),
            o_trace := o_trace s @ announced @ progress \<rparr>)"

definition o_handle :: "json_parse \<Rightarrow> o_state \<Rightarrow> o_chunk \<Rightarrow> o_state" where
  "o_handle parse s chunk =
     (let s1 = (case o_delta chunk of
                  None \<Rightarrow> s
                | Some (ODelta content tool_calls) \<Rightarrow>
                    (let s' = (if truthy content
                               then s\<lparr> o_fullResponse := o_fullResponse s @ render content,
                                      o_trace := o_trace s @ [OnToken (render content)] \<rparr>
                               else s)
                     in case tool_calls of
                          None \<Rightarrow> s'
                        | Some calls \<Rightarrow> foldl (o_toolCall parse) s' calls));
          s2 = (if truthy (o_finish chunk) then s1\<lparr> o_finishReason := render (o_finish chunk) \<rparr>
                else s1)
      in case o_usage chunk of
           None \<Rightarrow> s2
         | Some (prompt_tokens, completion_tokens) \<Rightarrow>
             s2\<lparr> o_inputTokens := numOr prompt_tokens 0,
                 o_outputTokens := numOr completion_tokens 0 \<rparr>)"

definition o_start :: "nat \<Rightarrow> nat \<Rightarrow> string \<Rightarrow> o_state" where
  "o_start totalInputTokens totalOutputTokens accumulatedResponse =
     \<lparr> o_fullResponse = accumulatedResponse, o_inputTokens = totalInputTokens,
       o_outputTokens = totalOutputTokens, o_pendingToolCalls = [], o_finishReason = [],
       o_trace = [] \<rparr>"

text \<open>
  One iteration of the loop over the pending calls. Parsing the arguments, reading their
  \<open>path\<close> and calling the loader share one \<open>try\<close>, whose \<open>catch\<close> reports
  \<open>toolCall.arguments\<close>.
\<close>

definition o_resolve :: "json_parse \<Rightarrow> loader \<Rightarrow> o_pending \<Rightarrow> o_message list \<times> callback list" where
  "o_resolve parse load toolCall =
     (if o_name toolCall = ''load_file'' then
        (case parse (o_arguments toolCall) of
           ParseError msg \<Rightarrow>
             ([OTool (o_id toolCall) (errorLoading msg)],
              [OnFileLoaded (Str (o_arguments toolCall)) False])
         | Parsed (NullInput msg) \<Rightarrow>
             ([OTool (o_id toolCall) (errorLoading msg)],
              [OnFileLoaded (Str (o_arguments toolCall)) False])
         | Parsed (Input path query) \<Rightarrow>
             (case loadOne load path of
                Inr (text, ok) \<Rightarrow>
                  ([OTool (o_id toolCall) text], [OnFileLoad path, OnFileLoaded path ok])
              | Inl err \<Rightarrow>
                  ([OTool (o_id toolCall) (errorLoading (messageOr err ''Unknown error''))],
                   [OnFileLoad path, OnFileLoaded (Str (o_arguments toolCall)) False])))
      else ([], []))"

definition o_toolRound ::
  "json_parse \<Rightarrow> loader \<Rightarrow> o_state \<Rightarrow> o_message list \<Rightarrow> o_message list \<times> callback list" where
  "o_toolRound parse load s currentMessages =
     (let calls = map snd (o_pendingToolCalls s);
          resolved = map (o_resolve parse load) calls;
          updatedMessages = currentMessages @
            [OAssistant (if o_fullResponse s \<noteq> [] then Some (o_fullResponse s) else None) calls]
            @ concat (map fst resolved)
      in (updatedMessages, concat (map snd resolved)))"

definition o_finishTurn :: "SendMessageOptions \<Rightarrow> o_state \<Rightarrow> callback list" where
  "o_finishTurn opts s =
     o_trace s
     @ usageCallbacks (optModelId opts) (o_inputTokens s) (o_outputTokens s) 0
     @ [OnComplete (o_fullResponse s)]"

fun o_makeStreamingRequest ::
  "json_parse \<Rightarrow> SendMessageOptions \<Rightarrow> o_chunk round list \<Rightarrow> o_message list \<Rightarrow>
   nat \<Rightarrow> nat \<Rightarrow> string \<Rightarrow> completion \<times> callback list \<times> o_message list list" where
  "o_makeStreamingRequest parse opts [] currentMessages tin tout acc =
     (Pending, [], [currentMessages])"
| "o_makeStreamingRequest parse opts (r # rs) currentMessages tin tout acc =
     (case r of
        FetchFails e \<Rightarrow> (Threw e, [], [currentMessages])
      | HttpError status body \<Rightarrow> (Threw (httpFailure body status), [], [currentMessages])
      | NoBody \<Rightarrow> (Threw (JsError ''Error'' ''No response body''), [], [currentMessages])
      | Streamed chunks failure \<Rightarrow>
          (let s = foldl (o_handle parse) (o_start tin tout acc) chunks in
           case failure of
             Some e \<Rightarrow> (Threw e, o_trace s, [currentMessages])
           | None \<Rightarrow>
               (case loadFileContents opts of
                  Some load \<Rightarrow>
                    if o_finishReason s = ''tool_calls'' \<and> o_pendingToolCalls s \<noteq> [] then
                      (case o_toolRound parse load s currentMessages of
                         (updatedMessages, loaded) \<Rightarrow>
                           (case o_makeStreamingRequest parse opts rs updatedMessages
                                   (o_inputTokens s) (o_outputTokens s) (o_fullResponse s) of
                              (c, tr, sent) \<Rightarrow>
                                (c, o_trace s @ loaded @ tr, currentMessages # sent)))
                    else (Returned, o_finishTurn opts s, [currentMessages])
                | None \<Rightarrow> (Returned, o_finishTurn opts s, [currentMessages]))))"

definition openai_sendMessage ::
  "json_parse \<Rightarrow> SendMessageOptions \<Rightarrow> o_chunk round list \<Rightarrow> bool \<times> callback list \<times> o_message list list" where
  "openai_sendMessage parse opts script =
     (case o_makeStreamingRequest parse opts script
             (OMessage ''developer'' (systemPrompt opts)
              # map (\<lambda>(r, c). OMessage (roleName r) c) (messages opts)) 0 0 [] of
        (Returned, tr, sent) \<Rightarrow> (True, OnStart # tr, sent)
      | (Threw err, tr, sent) \<Rightarrow> (True, OnStart # tr @ a_catch err, sent)
      | (Pending, tr, sent) \<Rightarrow> (False, OnStart # tr, sent))"

section \<open>Gemini adapter (lib/providers/gemini.ts)\<close>

text \<open>
  A \<open>functionCall\<close> with its \<open>name\<close> and, of its \<open>args\<close>, the \<open>path\<close>; a part of
  \<open>candidates[0].content.parts\<close> with its \<open>text\<close> and \<open>functionCall\<close>; a parsed chunk
  with the parts and \<open>finishReason\<close> of its first candidate and its \<open>usageMetadata\<close>
  (\<open>promptTokenCount\<close>, \<open>candidatesTokenCount\<close>).
\<close>

record g_pending =
  g_name :: string
  g_path :: jsval

record g_part =
  g_text :: jsval
  g_functionCall :: "g_pending option"

record g_chunk =
  g_candidate :: "(g_part list option \<times> jsval) option"
  g_usage :: "(nat option \<times> nat option) option"

datatype g_out_part =
    GText string
  | GFunctionCall g_pending
  | GFunctionResponse string string

datatype g_content = GContent string "g_out_part list"

record g_state =
  g_fullResponse :: string
  g_inputTokens :: nat
  g_outputTokens :: nat
  g_pendingFunctionCalls :: "g_pending list"
  g_finishReason :: string
  g_trace :: "callback list"

definition g_handlePart :: "g_state \<Rightarrow> g_part \<Rightarrow> g_state" where
  "g_handlePart s part =
     (let s1 = (if truthy (g_text part)
                then s\<lparr> g_fullResponse := g_fullResponse s @ render (g_text part),
                       g_trace := g_trace s @ [OnToken (render (g_text part))] \<rparr>
                else s)
      in case g_functionCall part of
           None \<Rightarrow> s1
         | Some funcCall \<Rightarrow>
             s1\<lparr> g_pendingFunctionCalls := g_pendingFunctionCalls s1 @ [funcCall],
                 g_trace := g_trace s1 @
                   (if g_name funcCall = ''load_file''
                    then [OnFileLoad (Str (orElse (g_path funcCall) ''Loading file...''))]
                    else []) \<rparr>)"

definition g_handle :: "g_state \<Rightarrow> g_chunk \<Rightarrow> g_state" where
  "g_handle s chunk =
     (let s1 = (case g_candidate chunk of
                  None \<Rightarrow> s
                | Some (parts, finishReason) \<Rightarrow>
                    (let s' = (case parts of None \<Rightarrow> s | Some ps \<Rightarrow> foldl g_handlePart s ps)
                     in if truthy finishReason then s'\<lparr> g_finishReason := render finishReason \<rparr>
                        else s'))
      in case g_usage chunk of
           None \<Rightarrow> s1
         | Some (promptTokenCount, candidatesTokenCount) \<Rightarrow>
             s1\<lparr> g_inputTokens := numOr promptTokenCount (g_inputTokens s1),
                 g_outputTokens := numOr candidatesTokenCount (g_outputTokens s1) \<rparr>)"

definition g_start :: "nat \<Rightarrow> nat \<Rightarrow> string \<Rightarrow> g_state" where
  "g_start totalInputTokens totalOutputTokens accumulatedResponse =
     \<lparr> g_fullResponse = accumulatedResponse, g_inputTokens = totalInputTokens,
       g_outputTokens = totalOutputTokens, g_pendingFunctionCalls = [], g_finishReason = [],
       g_trace = [] \<rparr>"

definition g_resolve :: "loader \<Rightarrow> g_pending \<Rightarrow> g_out_part list \<times> callback list" where
  "g_resolve load funcCall =
     (if g_name funcCall = ''load_file'' then
        (let path = g_path funcCall in
         case loadOne load path of
           Inr (text, ok) \<Rightarrow>
             ([GFunctionResponse (g_name funcCall) text], [OnFileLoad path, OnFileLoaded path ok])
         | Inl err \<Rightarrow>
             ([GFunctionResponse (g_name funcCall) (errorLoading (messageOr err ''Unknown error''))],
              [OnFileLoad path, OnFileLoaded path False]))
      else ([], []))"

definition g_toolRound :: "loader \<Rightarrow> g_state \<Rightarrow> g_content list \<Rightarrow> g_content list \<times> callback list" where
  "g_toolRound load s currentContents =
     (let resolved = map (g_resolve load) (g_pendingFunctionCalls s);
          functionResponses = concat (map fst resolved);
          modelParts =
            (if g_fullResponse s \<noteq> [] then [GText (g_fullResponse s)] else [])
            @ map GFunctionCall (g_pendingFunctionCalls s);
          updatedContents = currentContents @
            [GContent ''model'' modelParts, GContent ''user'' functionResponses]
      in (updatedContents, concat (map snd resolved)))"

definition g_finish :: "SendMessageOptions \<Rightarrow> g_state \<Rightarrow> callback list" where
  "g_finish opts s =
     g_trace s
     @ usageCallbacks (optModelId opts) (g_inputTokens s) (g_outputTokens s) 0
     @ [OnComplete (g_fullResponse s)]"

fun g_makeStreamingRequest ::
  "SendMessageOptions \<Rightarrow> g_chunk round list \<Rightarrow> g_content list \<Rightarrow>
   nat \<Rightarrow> nat \<Rightarrow> string \<Rightarrow> completion \<times> callback list \<times> g_content list list" where
  "g_makeStreamingRequest opts [] currentContents tin tout acc =
     (Pending, [], [currentContents])"
| "g_makeStreamingRequest opts (r # rs) currentContents tin tout acc =
     (case r of
        FetchFails e \<Rightarrow> (Threw e, [], [currentContents])
      | HttpError status body \<Rightarrow> (Threw (httpFailure body status), [], [currentContents])
      | NoBody \<Rightarrow> (Threw (JsError ''Error'' ''No response body''), [], [currentContents])
      | Streamed chunks failure \<Rightarrow>
          (let s = foldl g_handle (g_start tin tout acc) chunks in
           case failure of
             Some e \<Rightarrow> (Threw e, g_trace s, [currentContents])
           | None \<Rightarrow>
               (case loadFileContents opts of
                  Some load \<Rightarrow>
                    if g_pendingFunctionCalls s \<noteq> [] then
                      (case g_toolRound load s currentContents of
                         (updatedContents, loaded) \<Rightarrow>
                           (case g_makeStreamingRequest opts rs updatedContents
                                   (g_inputTokens s) (g_outputTokens s) (g_fullResponse s) of
                              (c, tr, sent) \<Rightarrow>
                                (c, g_trace s @ loaded @ tr, currentContents # sent)))
                    else (Returned, g_finish opts s, [currentContents])
                | None \<Rightarrow> (Returned, g_finish opts s, [currentContents]))))"

definition g_catch :: "thrown \<Rightarrow> callback list" where
  "g_catch err =
     (if isAbortError err then []
      else
        (let errorMessage = messageOr err ''Failed to send message'' in
         if includesStr errorMessage ''blocked'' \<or> includesStr errorMessage ''safety''
         then [OnError ''Response was blocked by safety filters. Try rephrasing your question.'']
         else [OnError errorMessage]))"

definition gemini_sendMessage ::
  "SendMessageOptions \<Rightarrow> g_chunk round list \<Rightarrow> bool \<times> callback list \<times> g_content list list" where
  "gemini_sendMessage opts script =
     (case g_makeStreamingRequest opts script
             (map (\<lambda>(r, c). GContent (if r = Assistant then ''model'' else ''user'') [GText c])
                (messages opts)) 0 0 [] of
        (Returned, tr, sent) \<Rightarrow> (True, OnStart # tr, sent)
      | (Threw err, tr, sent) \<Rightarrow> (True, OnStart # tr @ g_catch err, sent)
      | (Pending, tr, sent) \<Rightarrow> (False, OnStart # tr, sent))"

section \<open>Notions the properties are stated with\<close>

text \<open>
  The events of each vendor that start a tool call or report one, and the text deltas an
  event carries (a missing or empty text is no delta).
\<close>

fun a_isToolStart :: "a_event \<Rightarrow> bool" where
  "a_isToolStart (ContentBlockStart OtherBlock) = False"
| "a_isToolStart (ContentBlockStart b) = True"
| "a_isToolStart e = False"

fun a_textOf :: "a_event \<Rightarrow> string" where
  "a_textOf (ContentBlockDelta (TextDelta t)) = orElse t []"
| "a_textOf e = []"

definition a_textDeltas :: "a_event list \<Rightarrow> string list" where
  "a_textDeltas events = filter (\<lambda>t. t \<noteq> []) (map a_textOf events)"

definition o_hasToolCalls :: "o_chunk \<Rightarrow> bool" where
  "o_hasToolCalls chunk =
     (case o_delta chunk of Some (ODelta content (Some calls)) \<Rightarrow> calls \<noteq> [] | _ \<Rightarrow> False)"

definition o_textOf :: "o_chunk \<Rightarrow> string" where
  "o_textOf chunk = (case o_delta chunk of Some (ODelta content calls) \<Rightarrow> orElse content [] | None \<Rightarrow> [])"

definition o_textDeltas :: "o_chunk list \<Rightarrow> string list" where
  "o_textDeltas chunks = filter (\<lambda>t. t \<noteq> []) (map o_textOf chunks)"

definition g_partsOf :: "g_chunk \<Rightarrow> g_part list" where
  "g_partsOf chunk = (case g_candidate chunk of Some (Some ps, finishReason) \<Rightarrow> ps | _ \<Rightarrow> [])"

definition g_hasFunctionCall :: "g_chunk \<Rightarrow> bool" where
  "g_hasFunctionCall chunk = list_ex (\<lambda>part. g_functionCall part \<noteq> None) (g_partsOf chunk)"

definition g_textDeltas :: "g_chunk list \<Rightarrow> string list" where
  "g_textDeltas chunks =
     filter (\<lambda>t. t \<noteq> []) (map (\<lambda>part. orElse (g_text part) []) (concat (map g_partsOf chunks)))"

text \<open>A request cancelled through the abort signal: \<open>fetch\<close> or a read rejects with an AbortError.\<close>

definition isAbortRound :: "'e round \<Rightarrow> bool" where
  "isAbortRound r =
     (case r of
        FetchFails e \<Rightarrow> isAbortError e
      | Streamed events (Some e) \<Rightarrow> isAbortError e
      | _ \<Rightarrow> False)"

text \<open>A callback other than \<open>onComplete\<close> and \<open>onError\<close>.\<close>

definition silent :: "callback \<Rightarrow> bool" where
  "silent c = (\<not> isOnComplete c \<and> \<not> isOnError c)"

text \<open>The input and output token counts of the \<open>onUsage\<close> calls of a trace.\<close>

fun usageCounts :: "callback list \<Rightarrow> (nat \<times> nat) list" where
  "usageCounts [] = []"
| "usageCounts (OnUsage u # cs) = (inputTokens u, outputTokens u) # usageCounts cs"
| "usageCounts (c # cs) = usageCounts cs"

text \<open>
  The token counts one Anthropic round reports: \<open>input_tokens\<close> of its \<open>message_start\<close>
  events and \<open>output_tokens\<close> of its \<open>message_delta\<close> events.
\<close>

fun a_reportedInput :: "a_event \<Rightarrow> nat" where
  "a_reportedInput (MessageStart u) = numOr u 0"
| "a_reportedInput e = 0"

fun a_reportedOutput :: "a_event \<Rightarrow> nat" where
  "a_reportedOutput (MessageDelta u r) = numOr u 0"
| "a_reportedOutput e = 0"

definition roundEvents :: "'e round \<Rightarrow> 'e list" where
  "roundEvents r = (case r of Streamed events failure \<Rightarrow> events | _ \<Rightarrow> [])"


section \<open>Concrete inputs\<close>

text \<open>
  The JSON text \<open>{"path":"notes/a.md"}\<close>, a parser that agrees with \<open>JSON.parse\<close> on
  that text and on its proper prefixes, a loader that knows one file, and a loader whose
  request fails.
\<close>

definition argsExample :: string where
  "argsExample = ''{'' @ [CHR 0x22] @ ''path'' @ [CHR 0x22] @ '':'' @ [CHR 0x22] @ ''notes/a.md''
                  @ [CHR 0x22] @ ''}''"

definition parseExample :: json_parse where
  "parseExample text =
     (if text = argsExample then Parsed (Input (Str ''notes/a.md'') Undefined)
      else ParseError ''Unexpected end of JSON input'')"

definition loaderExample :: loader where
  "loaderExample path =
     (if path = Str ''notes/a.md''
      then LoaderReturns [\<lparr> filePath = ''notes/a.md'', fileContent = ''hello'' \<rparr>]
      else LoaderReturns [])"

definition loaderOffline :: loader where
  "loaderOffline path = LoaderThrows (JsError ''TypeError'' ''Failed to fetch'')"

definition optsExample :: SendMessageOptions where
  "optsExample = \<lparr> messages = [(User, ''hi'')], systemPrompt = ''sys'',
      optModelId = ''gpt-5-nano'', loadFileContents = Some loaderExample \<rparr>"

text \<open>
  Streams of one answer in two text deltas (reported usage: 12 input and 2 output tokens),
  and streams in which the model asks for \<open>notes/a.md\<close> (reported usage: 100 input and 20
  output tokens).
\<close>

definition aPlain :: "a_event list" where
  "aPlain =
     [MessageStart (Some 12), ContentBlockStart OtherBlock,
      ContentBlockDelta (TextDelta (Str ''Hel'')), ContentBlockDelta (TextDelta (Str ''lo'')),
      ContentBlockStop, MessageDelta (Some 2) (Str ''end_turn'')]"

definition aTool :: "a_event list" where
  "aTool =
     [MessageStart (Some 100), ContentBlockStart (ToolUse ''toolu_1'' ''load_file''),
      ContentBlockDelta (InputJsonDelta (Str argsExample)), ContentBlockStop,
      MessageDelta (Some 20) (Str ''tool_use'')]"

definition oPlain :: "o_chunk list" where
  "oPlain =
     [\<lparr> o_delta = Some (ODelta (Str ''Hel'') None), o_finish = Undefined, o_usage = None \<rparr>,
      \<lparr> o_delta = Some (ODelta (Str ''lo'') None), o_finish = Str ''stop'', o_usage = None \<rparr>,
      \<lparr> o_delta = None, o_finish = Undefined, o_usage = Some (Some 12, Some 2) \<rparr>]"

definition oTool :: "o_chunk list" where
  "oTool =
     [\<lparr> o_delta = Some (ODelta Undefined (Some
          [\<lparr> o_index = Some 0, o_callId = Str ''call_1'', o_callName = Str ''load_file'',
             o_callArguments = Str argsExample \<rparr>])),
        o_finish = Undefined, o_usage = None \<rparr>,
      \<lparr> o_delta = Some (ODelta Undefined None), o_finish = Str ''tool_calls'', o_usage = None \<rparr>,
      \<lparr> o_delta = None, o_finish = Undefined, o_usage = Some (Some 100, Some 20) \<rparr>]"

definition gPlain :: "g_chunk list" where
  "gPlain =
     [\<lparr> g_candidate = Some (Some [\<lparr> g_text = Str ''Hel'', g_functionCall = None \<rparr>], Undefined),
        g_usage = None \<rparr>,
      \<lparr> g_candidate = Some (Some [\<lparr> g_text = Str ''lo'', g_functionCall = None \<rparr>], Str ''STOP''),
        g_usage = Some (Some 12, Some 2) \<rparr>]"

definition gTool :: "g_chunk list" where
  "gTool =
     [\<lparr> g_candidate = Some (Some [\<lparr> g_text = Undefined,
            g_functionCall = Some \<lparr> g_name = ''load_file'', g_path = Str ''notes/a.md'' \<rparr> \<rparr>],
          Undefined),
        g_usage = Some (Some 100, Some 20) \<rparr>]"

text \<open>
  Options whose loader fails; streams whose tool arguments are the incomplete text \<open>{\<close>;
  a Gemini stream asking for a file the loader does not know, and one whose \<open>path\<close> is
  \<open>null\<close>; a parser that knows the text \<open>null\<close>, and an Anthropic stream whose tool
  arguments are that text.
\<close>

definition optsOffline :: SendMessageOptions where
  "optsOffline = optsExample\<lparr> loadFileContents := Some loaderOffline \<rparr>"

definition aBroken :: "a_event list" where
  "aBroken =
     [ContentBlockStart (ToolUse ''toolu_1'' ''load_file''),
      ContentBlockDelta (InputJsonDelta (Str ''{'')), ContentBlockStop,
      MessageDelta None (Str ''tool_use'')]"

definition oBroken :: "o_chunk list" where
  "oBroken =
     [\<lparr> o_delta = Some (ODelta Undefined (Some
          [\<lparr> o_index = Some 0, o_callId = Str ''call_1'', o_callName = Str ''load_file'',
             o_callArguments = Str ''{'' \<rparr>])),
        o_finish = Undefined, o_usage = None \<rparr>,
      \<lparr> o_delta = Some (ODelta Undefined None), o_finish = Str ''tool_calls'', o_usage = None \<rparr>]"

definition gMissing :: "g_chunk list" where
  "gMissing =
     [\<lparr> g_candidate = Some (Some [\<lparr> g_text = Undefined,
            g_functionCall = Some \<lparr> g_name = ''load_file'', g_path = Str ''missing.md'' \<rparr> \<rparr>],
          Undefined),
        g_usage = None \<rparr>]"

definition gNull :: "g_chunk list" where
  "gNull =
     [\<lparr> g_candidate = Some (Some [\<lparr> g_text = Undefined,
            g_functionCall = Some \<lparr> g_name = ''load_file'', g_path = Null \<rparr> \<rparr>],
          Undefined),
        g_usage = None \<rparr>]"

definition parseNull :: json_parse where
  "parseNull text =
     (if text = ''null'' then Parsed (NullInput ''Cannot read properties of null (reading 'path')'')
      else ParseError ''Unexpected end of JSON input'')"

definition aNull :: "a_event list" where
  "aNull =
     [ContentBlockStart (ToolUse ''toolu_1'' ''load_file''),
      ContentBlockDelta (InputJsonDelta (Str ''null'')), ContentBlockStop,
      MessageDelta None (Str ''tool_use'')]"

definition abortError :: thrown where
  "abortError = JsError ''AbortError'' ''The operation was aborted.''"

text \<open>
  A store with keys for two providers, and a file tree whose folder
  \<open>research/newsletters/ethan\<close> holds seven \<open>.md\<close> files, not in the order of
  their dates.
\<close>

definition storageExample :: "storage option" where
  "storageExample = Some [''brain_api_provider'' \<mapsto> ''gemini'',
      ''brain_anthropic_api_key'' \<mapsto> ''sk-ant-1'', ''brain_gemini_api_key'' \<mapsto> ''AIza1'']"


section \<open>Verified properties\<close>

subsection \<open>Model selection\<close>

lemma default_model_ids:
  "map_option modelId (getDefaultModelForProvider Anthropic) = Some ''claude-haiku-4-5-20251001''"
  "map_option modelId (getDefaultModelForProvider OpenAI) = Some ''gpt-5-nano''"
  "map_option modelId (getDefaultModelForProvider Gemini) = Some ''gemini-3-flash-preview''"
  by (simp_all add: getDefaultModelForProvider_def getModelsForProvider_def MODELS_def)

lemma providers_of_id:
  "map provider (filter (\<lambda>m. modelId m = ''claude-haiku-4-5-20251001'') MODELS) = [Anthropic]"
  "map provider (filter (\<lambda>m. modelId m = ''claude-sonnet-4-5-20250929'') MODELS) = [Anthropic]"
  "map provider (filter (\<lambda>m. modelId m = ''gpt-5-nano'') MODELS) = [OpenAI]"
  "map provider (filter (\<lambda>m. modelId m = ''gpt-5-mini'') MODELS) = [OpenAI]"
  "map provider (filter (\<lambda>m. modelId m = ''gemini-3-flash-preview'') MODELS) = [Gemini]"
  "map provider (filter (\<lambda>m. modelId m = ''gemini-3-pro-preview'') MODELS) = [Gemini]"
  by (simp_all add: MODELS_def)

lemma saved_model_cases:
  "list_ex (\<lambda>m. modelId m = saved) (getModelsForProvider p) \<longleftrightarrow>
     (case p of
        Anthropic \<Rightarrow> saved = ''claude-haiku-4-5-20251001'' \<or> saved = ''claude-sonnet-4-5-20250929''
      | OpenAI \<Rightarrow> saved = ''gpt-5-nano'' \<or> saved = ''gpt-5-mini''
      | Gemini \<Rightarrow> saved = ''gemini-3-flash-preview'' \<or> saved = ''gemini-3-pro-preview'')"
  by (cases p) (auto simp add: getModelsForProvider_def MODELS_def)

lemma selected_model_provider:
  "\<exists>i. getSelectedModel so p = Some i \<and> map provider (filter (\<lambda>m. modelId m = i) MODELS) = [p]"
  by (cases p; cases so)
     (auto simp add: getSelectedModel_def Let_def saved_model_cases default_model_ids providers_of_id
           split: option.splits)

lemma selected_model_default:
  "\<not> list_ex (\<lambda>m. modelId m = saved) (getModelsForProvider p) \<Longrightarrow>
   st (modelStorageKey (PROVIDERS p)) = Some saved \<Longrightarrow>
   getSelectedModel (Some st) p = map_option modelId (find (\<lambda>m. tier m = Cheap) (getModelsForProvider p))"
  by (cases p) (auto simp add: getSelectedModel_def Let_def getDefaultModelForProvider_def getModelsForProvider_def MODELS_def)

text \<open>
  Claim C10. For every provider \<open>p\<close> and every state of the store, \<open>getSelectedModel\<close>
  returns the id of exactly one catalog model, and that model's provider is \<open>p\<close>. A stored
  selection that is not the id of one of \<open>p\<close>'s catalog models is ignored: the result is
  then the id of \<open>p\<close>'s cheap-tier model.
\<close>

theorem getSelectedModel_belongs_to_provider:
  "(\<exists>i. getSelectedModel so p = Some i \<and>
        map provider (filter (\<lambda>m. modelId m = i) MODELS) = [p]) \<and>
   (st (modelStorageKey (PROVIDERS p)) = Some saved \<and>
    \<not> list_ex (\<lambda>m. modelId m = saved) (getModelsForProvider p) \<longrightarrow>
      (\<exists>m. find (\<lambda>m. tier m = Cheap) (getModelsForProvider p) = Some m \<and>
           getSelectedModel (Some st) p = Some (modelId m)))"
proof -
  have "\<exists>m. find (\<lambda>m. tier m = Cheap) (getModelsForProvider p) = Some m"
    by (cases p) (simp_all add: getModelsForProvider_def MODELS_def)
  then show ?thesis
    using selected_model_provider [of so p] selected_model_default [of saved p st] by auto
qed

theorem getSelectedModel_belongs_to_provider_witness:
  "getSelectedModel (Some [''brain_openai_model'' \<mapsto> ''claude-haiku-4-5-20251001'']) OpenAI
     = Some ''gpt-5-nano''"
  using getSelectedModel_belongs_to_provider [of None OpenAI "[''brain_openai_model'' \<mapsto> ''claude-haiku-4-5-20251001'']"
                    "''claude-haiku-4-5-20251001''"]
  by (simp add: getModelsForProvider_def MODELS_def)



subsection \<open>Cost of a turn\<close>

lemma getModelById_all:
  "list_all (\<lambda>m. getModelById (modelId m) = Some m) MODELS"
  by (simp add: getModelById_def MODELS_def)

lemma getModelById_catalog:
  "m \<in> set MODELS \<Longrightarrow> getModelById (modelId m) = Some m"
  using getModelById_all by (simp add: list_all_iff)

lemma getModelById_unknown:
  "i \<notin> modelId ` set MODELS \<Longrightarrow> getModelById i = None"
  by (auto simp add: getModelById_def find_None_iff)

lemma unit_price_all:
  "list_all (\<lambda>m. calculateCost (ofRat 1000000) (ofRat 0) (modelId m) (ofRat 0) = inputCostPerMillion m)
     MODELS"
  by code_simp

text \<open>
  Claim C6. For every catalog model, \<open>calculateCost(1_000_000, 0, id, 0)\<close> is exactly that
  model's \<open>inputCostPerMillion\<close>, as binary64 values; for an id outside the catalog the
  cost is 0 whatever the counts (any three numbers, NaN and the infinities included); and for
  a catalog model the cost is
  \<open>inputTokens/1e6 * inputCostPerMillion + outputTokens/1e6 * outputCostPerMillion + webSearches * 0.01\<close>,
  each operation being the rounded binary64 operation and the sum taken from the left.
\<close>

theorem calculateCost_linear:
  "(\<forall>m \<in> set MODELS.
      calculateCost (ofRat 1000000) (ofRat 0) (modelId m) (ofRat 0) = inputCostPerMillion m) \<and>
   (i \<notin> modelId ` set MODELS \<longrightarrow> calculateCost a b i w = ofRat 0) \<and>
   (\<forall>m \<in> set MODELS. calculateCost a b (modelId m) w =
      dadd (dadd (dmul (ddiv a (ofRat 1000000)) (inputCostPerMillion m))
                 (dmul (ddiv b (ofRat 1000000)) (outputCostPerMillion m)))
           (dmul w (ofRat (1 / 100))))"
  using unit_price_all
  by (simp add: calculateCost_def getModelById_catalog getModelById_unknown WEB_SEARCH_COST_def
      list_all_iff)

text \<open>
  The turn of 12 input and 2 output tokens on \<open>gpt-5-nano\<close> costs the binary64 value
  \<open>206603533625547 / 2^67\<close>, which JavaScript prints as \<open>0.0000014000000000000001\<close>:
  the rounded operations do not give the rational \<open>7/5000000\<close> of the same formula over
  the decimal prices.
\<close>

lemma cost_of_small_turn:
  "dadd (dadd (dmul (ddiv (ofNat 12) (ofRat 1000000)) (ofRat (5 / 100)))
              (dmul (ddiv (ofNat 2) (ofRat 1000000)) (ofRat (40 / 100))))
        (dmul (ofNat 0) (ofRat (1 / 100)))
   = Finite False (206603533625547 / 147573952589676412928)"
  by code_simp

lemma cost_of_small_turn_inexact:
  "(206603533625547 / 147573952589676412928 :: rat) \<noteq> 7 / 5000000"
  by simp

theorem calculateCost_linear_witness:
  "calculateCost (ofRat 1000000) (ofRat 0) ''gpt-5-nano'' (ofRat 0) = ofRat (5 / 100) \<and>
   calculateCost (ofNat 123) (ofNat 456) ''no-such-model'' (ofNat 7) = ofRat 0 \<and>
   calculateCost (ofNat 12) (ofNat 2) ''gpt-5-nano'' (ofNat 0)
     = Finite False (206603533625547 / 147573952589676412928)"
  using calculateCost_linear [of "''no-such-model''" "ofNat 123" "ofNat 456" "ofNat 7"]
        calculateCost_linear [of "''x''" "ofNat 12" "ofNat 2" "ofNat 0"]
        cost_of_small_turn
  by (simp add: MODELS_def)

subsection \<open>The active provider\<close>

lemma hasApiKey_Some: "hasApiKey (Some st) q = truthyItem st (storageKey (PROVIDERS q))"
  by (simp add: hasApiKey_def getApiKey_def truthyItem_def)

lemma hasApiKey_None: "hasApiKey None q = False"
  by (simp add: hasApiKey_def getApiKey_def)

lemma firstConfigured_find:
  "firstConfigured st ps = find (hasApiKey (Some st)) ps"
  by (induction ps) (simp_all add: hasApiKey_Some)

lemma parseProvider_providerName: "parseProvider (providerName p) = Some p"
  by (cases p) (simp_all add: parseProvider_def providerName_def)

lemma key_not_active: "storageKey (PROVIDERS q) \<noteq> ACTIVE_PROVIDER"
  by (cases q) (simp_all add: ACTIVE_PROVIDER_def)

lemma truthyItem_setActive:
  "truthyItem (st(ACTIVE_PROVIDER \<mapsto> v)) (storageKey (PROVIDERS q)) = truthyItem st (storageKey (PROVIDERS q))"
  by (simp add: truthyItem_def key_not_active)

lemma firstConfigured_setActive:
  "firstConfigured (st(ACTIVE_PROVIDER \<mapsto> v)) ps = firstConfigured st ps"
  by (induction ps) (simp_all add: truthyItem_def key_not_active)

lemma find_providers:
  "find P getAllProviders = None \<longleftrightarrow> (\<forall>q. \<not> P q)"
proof -
  have "set getAllProviders = UNIV"
    using Provider.exhaust by (auto simp add: getAllProviders_def)
  then show ?thesis by (simp add: find_None_iff)
qed

lemma active_has_key:
  "hasApiKey so (getActiveProvider so) \<or> (getActiveProvider so = Anthropic \<and> (\<forall>q. \<not> hasApiKey so q))"
proof (cases so)
  case None
  then show ?thesis by (simp add: getActiveProvider_def hasApiKey_None)
next
  case (Some st)
  show ?thesis
  proof (cases "find (hasApiKey (Some st)) getAllProviders")
    case None
    then have "\<forall>q. \<not> hasApiKey (Some st) q" by (simp add: find_providers)
    then show ?thesis using Some None
      by (auto simp add: getActiveProvider_def Let_def firstConfigured_find hasApiKey_Some split: option.splits)
  next
    case (Some q)
    then have "hasApiKey (Some st) q" by (auto dest: find_Some_iff [THEN iffD1])
    then show ?thesis using \<open>so = Some st\<close> Some
      by (auto simp add: getActiveProvider_def Let_def firstConfigured_find hasApiKey_Some split: option.splits)
  qed
qed

lemma active_after_keyless:
  assumes "\<not> hasApiKey so p"
  shows "getActiveProvider (setActiveProvider p so) =
           (case find (hasApiKey so) getAllProviders of Some q \<Rightarrow> q | None \<Rightarrow> Anthropic)"
proof (cases so)
  case None
  then show ?thesis
    by (simp add: getActiveProvider_def setActiveProvider_def hasApiKey_None getAllProviders_def)
next
  case (Some st)
  show ?thesis using assms Some
    by (simp add: getActiveProvider_def setActiveProvider_def Let_def parseProvider_providerName
        truthyItem_setActive hasApiKey_Some firstConfigured_setActive flip: firstConfigured_find)
qed

text \<open>
  Claim C4, amended. In every state of the store the active provider has a non-empty stored
  key, or no provider has one and the active provider is \<open>Anthropic\<close>. After
  \<open>setActiveProvider(p)\<close> for a provider \<open>p\<close> without a key, the active provider is the
  first provider of \<open>getAllProviders()\<close> that has a key (\<open>Anthropic\<close> if none has one),
  which need not be the provider that was active before; the provider picker
  (\<open>handleProviderChange\<close>) does not reach \<open>setActiveProvider\<close> for such a \<open>p\<close> and leaves
  the store as it was.
\<close>

theorem active_provider_fallback:
  "(hasApiKey so (getActiveProvider so) \<or>
      (getActiveProvider so = Anthropic \<and> (\<forall>q. \<not> hasApiKey so q))) \<and>
   (\<not> hasApiKey so p \<longrightarrow>
      getActiveProvider (setActiveProvider p so) =
        (case find (hasApiKey so) getAllProviders of Some q \<Rightarrow> q | None \<Rightarrow> Anthropic) \<and>
      handleProviderChange p so = so)"
  using active_has_key [of so] active_after_keyless [of so p]
  by (simp add: handleProviderChange_def)

text \<open>
  The claim as stated fails: with keys stored for Anthropic and Gemini and Gemini active,
  \<open>setActiveProvider('openai')\<close> (no OpenAI key) makes Anthropic the active provider.
\<close>

theorem setActiveProvider_keyless_changes_active:
  "\<not> hasApiKey storageExample OpenAI \<and>
   getActiveProvider storageExample = Gemini \<and>
   getActiveProvider (setActiveProvider OpenAI storageExample) = Anthropic"
  by (simp add: storageExample_def hasApiKey_def getApiKey_def getActiveProvider_def
      setActiveProvider_def ACTIVE_PROVIDER_def parseProvider_def providerName_def
      truthyItem_def getAllProviders_def)

theorem active_provider_fallback_witness:
  "\<not> hasApiKey storageExample OpenAI \<and>
   getActiveProvider (setActiveProvider OpenAI storageExample) = Anthropic \<and>
   handleProviderChange OpenAI storageExample = storageExample \<and>
   hasApiKey storageExample (getActiveProvider storageExample)"
  using active_provider_fallback [of storageExample OpenAI]
  by (simp add: storageExample_def hasApiKey_def getApiKey_def getAllProviders_def
      getActiveProvider_def ACTIVE_PROVIDER_def parseProvider_def truthyItem_def)

subsection \<open>Key validation\<close>

lemma showNat_403: "showNat 403 = ''403''" by code_simp

lemma showNat_500: "showNat 500 = ''500''" by code_simp

lemma validate_ok:
  "responseOk s \<Longrightarrow> anthropic_validateKey (Response s b) = \<lparr> valid = True, error = None \<rparr>"
  "responseOk s \<Longrightarrow> openai_validateKey (Response s b) = \<lparr> valid = True, error = None \<rparr>"
  "responseOk s \<Longrightarrow> gemini_validateKey (Response s b) = \<lparr> valid = True, error = None \<rparr>"
  by (simp_all add: anthropic_validateKey_def openai_validateKey_def gemini_validateKey_def)

lemma validateOther_invalid: "\<not> valid (validateOther b s)"
  by (simp add: validateOther_def validateCaught_def split: sum.splits)

lemma validate_valid_iff:
  "valid (anthropic_validateKey r) \<longleftrightarrow> (\<exists>s b. r = Response s b \<and> responseOk s)"
  "valid (openai_validateKey r) \<longleftrightarrow> (\<exists>s b. r = Response s b \<and> responseOk s)"
  "valid (gemini_validateKey r) \<longleftrightarrow> (\<exists>s b. r = Response s b \<and> responseOk s)"
  by (cases r; simp add: anthropic_validateKey_def openai_validateKey_def gemini_validateKey_def
        validateOther_invalid validateCaught_def)+

lemma validate_special:
  "anthropic_validateKey (Response 401 b) = \<lparr> valid = False, error = Some ''Invalid API key'' \<rparr>"
  "anthropic_validateKey (Response 403 b) = \<lparr> valid = False, error = Some ''API key lacks required permissions'' \<rparr>"
  "openai_validateKey (Response 401 b) = \<lparr> valid = False, error = Some ''Invalid API key'' \<rparr>"
  "gemini_validateKey (Response 400 b) = \<lparr> valid = False, error = Some ''Invalid API key'' \<rparr>"
  "gemini_validateKey (Response 403 b) = \<lparr> valid = False, error = Some ''Invalid API key'' \<rparr>"
  by (simp_all add: anthropic_validateKey_def openai_validateKey_def gemini_validateKey_def responseOk_def)

lemma validateOther_vendor:
  "m \<noteq> [] \<Longrightarrow> validateOther (JsonValue (Some m)) s = \<lparr> valid = False, error = Some m \<rparr>"
  by (simp add: validateOther_def apiErrorMessage_def)

lemma validateOther_status:
  "b = NotJson \<or> b = JsonValue None \<or> b = JsonValue (Some []) \<Longrightarrow>
   validateOther b s = \<lparr> valid = False, error = Some (''API error: '' @ showNat s) \<rparr>"
  by (auto simp add: validateOther_def apiErrorMessage_def)

lemma validate_other:
  "\<not> responseOk s \<Longrightarrow> s \<noteq> 401 \<Longrightarrow> s \<noteq> 403 \<Longrightarrow> anthropic_validateKey (Response s b) = validateOther b s"
  "\<not> responseOk s \<Longrightarrow> s \<noteq> 401 \<Longrightarrow> openai_validateKey (Response s b) = validateOther b s"
  "\<not> responseOk s \<Longrightarrow> s \<noteq> 400 \<Longrightarrow> s \<noteq> 403 \<Longrightarrow> gemini_validateKey (Response s b) = validateOther b s"
  by (simp_all add: anthropic_validateKey_def openai_validateKey_def gemini_validateKey_def)

lemma validate_rejects:
  "anthropic_validateKey (FetchRejects e) = \<lparr> valid = False, error = Some (messageOr e ''Failed to validate key'') \<rparr>"
  "openai_validateKey (FetchRejects e) = \<lparr> valid = False, error = Some (messageOr e ''Failed to validate key'') \<rparr>"
  "gemini_validateKey (FetchRejects e) = \<lparr> valid = False, error = Some (messageOr e ''Failed to validate key'') \<rparr>"
  by (simp_all add: anthropic_validateKey_def openai_validateKey_def gemini_validateKey_def validateCaught_def)

text \<open>
  The claim as stated fails: OpenAI does not treat 403 as a key error, Gemini does not treat
  401 as one, and Gemini answers 400 with "Invalid API key" instead of the vendor's message.
\<close>

theorem validateKey_not_uniform:
  "openai_validateKey (Response 403 NotJson) = \<lparr> valid = False, error = Some ''API error: 403'' \<rparr> \<and>
   gemini_validateKey (Response 401 (JsonValue (Some ''API key expired''))) =
     \<lparr> valid = False, error = Some ''API key expired'' \<rparr> \<and>
   gemini_validateKey (Response 400 (JsonValue (Some ''Malformed request''))) =
     \<lparr> valid = False, error = Some ''Invalid API key'' \<rparr>"
  by (simp add: validate_special validate_other validateOther_vendor
      validateOther_status responseOk_def showNat_403)

text \<open>
  Claim C8, amended. For each adapter a 2xx response gives \<open>{valid: true}\<close>, and the result
  is valid only then; the function always returns a result. The statuses reported as key
  errors differ by adapter: Anthropic maps 401 to "Invalid API key" and 403 to "API key lacks
  required permissions", OpenAI maps 401 to "Invalid API key", Gemini maps 400 and 403 to
  "Invalid API key". Every other non-2xx status with a body that is not the JSON value
  \<open>null\<close> gives the vendor's \<open>error.message\<close> when it is a non-empty string and
  \<open>"API error: <status>"\<close> otherwise; with the body \<open>null\<close>, reading
  \<open>error.error\<close> raises a TypeError and the result carries its message. A rejected
  request gives the message of the thrown \<open>Error\<close>, or "Failed to validate key" when the
  thrown value is not an \<open>Error\<close>.
\<close>

theorem validateKey_status_mapping:
  "(responseOk s \<longrightarrow>
      anthropic_validateKey (Response s b) = \<lparr> valid = True, error = None \<rparr> \<and>
      openai_validateKey (Response s b) = \<lparr> valid = True, error = None \<rparr> \<and>
      gemini_validateKey (Response s b) = \<lparr> valid = True, error = None \<rparr>) \<and>
   (valid (anthropic_validateKey r) \<longleftrightarrow> (\<exists>s b. r = Response s b \<and> responseOk s)) \<and>
   (valid (openai_validateKey r) \<longleftrightarrow> (\<exists>s b. r = Response s b \<and> responseOk s)) \<and>
   (valid (gemini_validateKey r) \<longleftrightarrow> (\<exists>s b. r = Response s b \<and> responseOk s)) \<and>
   error (anthropic_validateKey (Response 401 b)) = Some ''Invalid API key'' \<and>
   error (anthropic_validateKey (Response 403 b)) = Some ''API key lacks required permissions'' \<and>
   error (openai_validateKey (Response 401 b)) = Some ''Invalid API key'' \<and>
   error (gemini_validateKey (Response 400 b)) = Some ''Invalid API key'' \<and>
   error (gemini_validateKey (Response 403 b)) = Some ''Invalid API key'' \<and>
   (\<not> responseOk s \<longrightarrow>
      (let vendor = (case b of
                       JsonNull t \<Rightarrow> t
                     | JsonValue (Some m) \<Rightarrow> if m \<noteq> [] then m else ''API error: '' @ showNat s
                     | _ \<Rightarrow> ''API error: '' @ showNat s)
       in (s \<noteq> 401 \<and> s \<noteq> 403 \<longrightarrow> error (anthropic_validateKey (Response s b)) = Some vendor) \<and>
          (s \<noteq> 401 \<longrightarrow> error (openai_validateKey (Response s b)) = Some vendor) \<and>
          (s \<noteq> 400 \<and> s \<noteq> 403 \<longrightarrow> error (gemini_validateKey (Response s b)) = Some vendor))) \<and>
   error (anthropic_validateKey (FetchRejects e)) =
     Some (case e of JsError n m \<Rightarrow> m | NonError \<Rightarrow> ''Failed to validate key'') \<and>
   error (openai_validateKey (FetchRejects e)) =
     Some (case e of JsError n m \<Rightarrow> m | NonError \<Rightarrow> ''Failed to validate key'') \<and>
   error (gemini_validateKey (FetchRejects e)) =
     Some (case e of JsError n m \<Rightarrow> m | NonError \<Rightarrow> ''Failed to validate key'')"
proof -
  have other: "error (validateOther b s) =
      Some (case b of
              JsonNull t \<Rightarrow> t
            | JsonValue (Some m) \<Rightarrow> if m \<noteq> [] then m else ''API error: '' @ showNat s
            | _ \<Rightarrow> ''API error: '' @ showNat s)"
    by (simp add: validateOther_def apiErrorMessage_def validateCaught_def messageOr_def
        split: json_body.splits option.splits)
  show ?thesis
    by (simp add: validate_ok validate_valid_iff validate_special validate_rejects
        validate_other other messageOr_def Let_def)
qed

theorem validateKey_status_mapping_witness:
  "anthropic_validateKey (Response 200 NotJson) = \<lparr> valid = True, error = None \<rparr> \<and>
   error (anthropic_validateKey (Response 500 (JsonValue (Some ''Overloaded'')))) = Some ''Overloaded'' \<and>
   error (openai_validateKey (Response 500 NotJson)) = Some ''API error: 500'' \<and>
   error (gemini_validateKey (Response 500 (JsonValue None))) = Some ''API error: 500'' \<and>
   error (openai_validateKey
            (Response 500 (JsonNull ''Cannot read properties of null (reading 'error')'')))
     = Some ''Cannot read properties of null (reading 'error')''"
  using validateKey_status_mapping [of 200 NotJson "FetchRejects NonError" NonError]
        validateKey_status_mapping
          [of 500 "JsonNull ''Cannot read properties of null (reading 'error')''"
              "FetchRejects NonError" NonError]
        validateKey_status_mapping [of 500 "JsonValue (Some ''Overloaded'')" "FetchRejects NonError" NonError]
        validateKey_status_mapping [of 500 NotJson "FetchRejects NonError" NonError]
        validateKey_status_mapping [of 500 "JsonValue None" "FetchRejects NonError" NonError]
  by (simp add: responseOk_def showNat_500 Let_def)

subsection \<open>Relevant files\<close>



lemma length_insertBy: "length (insertBy cmp x xs) = Suc (length xs)"
  by (induction xs) auto

lemma length_sortBy: "length (sortBy cmp xs) = length xs"
  by (induction xs) (simp_all add: sortBy_def length_insertBy)




















subsection \<open>Dates in the directory listing\<close>

text \<open>
  Claim C9. The sort key of the directory listing is meant to be the eight-digit date in the
  file name, 0 when the file name has none. \<open>extractDateFromPath\<close> searches the whole path:
  for \<open>meetings/20240101/notes.md\<close> the key is 20240101, taken from the directory, although
  the file name \<open>notes.md\<close> holds no date; the listing of that folder then shows
  \<open>notes.md\<close> before \<open>20251231-b.md\<close>.
\<close>

theorem extractDateFromPath_reads_directories:
  "extractDateFromPath ''meetings/20240101/notes.md'' = 20240101 \<and>
   fileNameOf ''meetings/20240101/notes.md'' = ''notes.md'' \<and>
   extractDateFromPath (fileNameOf ''meetings/20240101/notes.md'') = 0 \<and>
   extractDateFromPath (fileNameOf ''meetings/20240101/20251231-b.md'') = 20251231 \<and>
   examples [''meetings/20240101/notes.md'', ''meetings/20240101/20251231-b.md'']
     = [''notes.md'', ''20251231-b.md'']"
  by code_simp

text \<open>
  The same folder listed in the order of the paths, \<open>20230101-a.md\<close> before
  \<open>20251231-b.md\<close>: both files get the key 20240101 of the directory, and the file of
  2023 stays ahead of the file of 2025.
\<close>

lemma dated_directory_keeps_path_order:
  "extractDateFromPath ''meetings/20240101/20230101-a.md'' = 20240101 \<and>
   extractDateFromPath ''meetings/20240101/20251231-b.md'' = 20240101 \<and>
   examples [''meetings/20240101/20230101-a.md'', ''meetings/20240101/20251231-b.md'']
     = [''20230101-a.md'', ''20251231-b.md'']"
  by code_simp

text \<open>
  Where the directory part of a path holds no digit, the key is the one of the file name.
\<close>

lemma match8_skips_non_digits:
  "list_all (\<lambda>c. \<not> isDigit c) dir \<Longrightarrow> match8 (dir @ name) = match8 name"
  by (induction dir) simp_all

lemma extractDateFromPath_plain_directory:
  "list_all (\<lambda>c. \<not> isDigit c) dir \<Longrightarrow>
   extractDateFromPath (dir @ name) = extractDateFromPath name"
  by (simp add: extractDateFromPath_def match8_skips_non_digits)

subsection \<open>Resolution of load_file calls\<close>

lemma a_resolveAll_inputs:
  "\<forall>c \<in> set calls. a_name c = ''load_file'' \<and> (\<exists>p q. a_input c = Input p q) \<Longrightarrow>
   a_resolveAll load calls =
     (None,
      map (\<lambda>c. AToolResult (a_id c)
                 (case loadOne load (inputPath (a_input c)) of
                    Inr (text, ok) \<Rightarrow> text
                  | Inl err \<Rightarrow> errorLoading (messageOr err ''Unknown error''))) calls,
      concat (map (\<lambda>c. [OnFileLoad (inputPath (a_input c)),
                         OnFileLoaded (inputPath (a_input c))
                           (case loadOne load (inputPath (a_input c)) of
                              Inr (text, ok) \<Rightarrow> ok
                            | Inl err \<Rightarrow> False)]) calls))"
proof (induction calls)
  case Nil
  then show ?case by simp
next
  case (Cons c calls)
  then obtain p q where c: "a_name c = ''load_file''" "a_input c = Input p q" by auto
  from Cons have "a_resolveAll load calls = (None,
      map (\<lambda>c. AToolResult (a_id c)
                 (case loadOne load (inputPath (a_input c)) of
                    Inr (text, ok) \<Rightarrow> text
                  | Inl err \<Rightarrow> errorLoading (messageOr err ''Unknown error''))) calls,
      concat (map (\<lambda>c. [OnFileLoad (inputPath (a_input c)),
                         OnFileLoaded (inputPath (a_input c))
                           (case loadOne load (inputPath (a_input c)) of
                              Inr (text, ok) \<Rightarrow> ok
                            | Inl err \<Rightarrow> False)]) calls))" by simp
  then show ?case using c
    by (simp add: a_resolve_def split: sum.splits prod.splits)
qed

lemma a_pending_load_file:
  assumes "list_all (\<lambda>c. a_name c = ''load_file'') (a_pendingToolCalls s)"
  shows "list_all (\<lambda>c. a_name c = ''load_file'') (a_pendingToolCalls (a_handle parse s ev))"
proof (cases ev)
  case (ContentBlockStart b)
  with assms show ?thesis
    by (cases "(b, s)" rule: a_blockStart.cases) (simp_all add: a_emit_def)
next
  case (ContentBlockDelta d)
  with assms show ?thesis
    by (cases d) (simp_all add: a_emit_def Let_def split: parsed_args.splits tool_input.splits)
next
  case ContentBlockStop
  with assms show ?thesis
    by (simp add: a_blockStop_def Let_def split: parsed_args.splits)
next
  case (MessageDelta u r)
  with assms show ?thesis by (simp add: Let_def)
qed (use assms in simp_all)

lemma a_pending_fold:
  "list_all (\<lambda>c. a_name c = ''load_file'') (a_pendingToolCalls s) \<Longrightarrow>
   list_all (\<lambda>c. a_name c = ''load_file'') (a_pendingToolCalls (foldl (a_handle parse) s events))"
  by (induction events arbitrary: s) (simp_all add: a_pending_load_file)

lemma a_pending_names:
  "list_all (\<lambda>c. a_name c = ''load_file'')
     (a_pendingToolCalls (foldl (a_handle parse) (a_start tin tout tws acc) events))"
  by (rule a_pending_fold) (simp add: a_start_def)

lemma loadOne_text:
  "(case loadOne load p of Inr (text, ok) \<Rightarrow> text | Inl err \<Rightarrow> errorLoading (messageOr err ''Unknown error''))
   = (case load p of
        LoaderThrows e \<Rightarrow> ''Error loading file: '' @ (case e of JsError n m \<Rightarrow> m | NonError \<Rightarrow> ''Unknown error'')
      | LoaderReturns files \<Rightarrow>
          (case files of
             f # fs \<Rightarrow>
               if prefix ''[Error'' (fileContent f)
               then ''Error: Could not load file '' @ [CHR 0x22] @ render p @ [CHR 0x22]
                      @ ''. Make sure the path is correct.''
               else ''File: '' @ filePath f @ [CHR 0x0A, CHR 0x0A] @ fileContent f
           | [] \<Rightarrow> ''Error: Could not load file '' @ [CHR 0x22] @ render p @ [CHR 0x22]
                      @ ''. Make sure the path is correct.''))"
  by (simp add: loadOne_def fileResult_def newline_def couldNotLoad_def errorLoading_def messageOr_def
      split: loader_outcome.splits list.splits)

lemma loadOne_flag:
  "(case loadOne load p of Inr (text, ok) \<Rightarrow> ok | Inl err \<Rightarrow> False)
   = (case load p of
        LoaderThrows e \<Rightarrow> False
      | LoaderReturns files \<Rightarrow>
          (case files of f # fs \<Rightarrow> \<not> prefix ''[Error'' (fileContent f) | [] \<Rightarrow> False))"
  by (simp add: loadOne_def split: loader_outcome.splits list.splits)

lemma a_sent_first:
  "\<exists>rest. snd (snd (a_makeStreamingRequest parse opts script msgs i o' w acc)) = msgs # rest"
proof (cases script)
  case Nil
  then show ?thesis by simp
next
  case (Cons r rs)
  then show ?thesis
    by (cases r) (auto simp add: Let_def split: option.splits prod.splits)
qed

lemma a_tool_round:
  assumes load: "loadFileContents opts = Some load"
    and stop: "a_stopReason (foldl (a_handle parse) (a_start tin tout tws acc) events) = ''tool_use''"
    and pending: "a_pendingToolCalls (foldl (a_handle parse) (a_start tin tout tws acc) events) \<noteq> []"
    and inputs: "list_all (\<lambda>c. \<exists>p q. a_input c = Input p q)
                   (a_pendingToolCalls (foldl (a_handle parse) (a_start tin tout tws acc) events))"
  shows "(let s = foldl (a_handle parse) (a_start tin tout tws acc) events;
              run = a_makeStreamingRequest parse opts (Streamed events None # rs) msgs tin tout tws acc
          in take 2 (snd (snd run)) =
               [msgs,
                msgs @
                [AMessage ''assistant''
                   (ABlocks ((if a_fullResponse s \<noteq> [] then [AText (a_fullResponse s)] else [])
                             @ a_contentBlocks s)),
                 AMessage ''user''
                   (ABlocks (map (\<lambda>c. AToolResult (a_id c)
                      (case loadOne load (inputPath (a_input c)) of
                         Inr (text, ok) \<Rightarrow> text
                       | Inl err \<Rightarrow> errorLoading (messageOr err ''Unknown error'')))
                      (a_pendingToolCalls s)))]] \<and>
             prefix (a_trace s @
                     concat (map (\<lambda>c. [OnFileLoad (inputPath (a_input c)),
                         OnFileLoaded (inputPath (a_input c))
                           (case loadOne load (inputPath (a_input c)) of
                              Inr (text, ok) \<Rightarrow> ok
                            | Inl err \<Rightarrow> False)]) (a_pendingToolCalls s)))
               (fst (snd run)))"
proof -
  let ?s = "foldl (a_handle parse) (a_start tin tout tws acc) events"
  let ?results = "map (\<lambda>c. AToolResult (a_id c)
                      (case loadOne load (inputPath (a_input c)) of
                         Inr (text, ok) \<Rightarrow> text
                       | Inl err \<Rightarrow> errorLoading (messageOr err ''Unknown error'')))
                      (a_pendingToolCalls ?s)"
  let ?loaded = "concat (map (\<lambda>c. [OnFileLoad (inputPath (a_input c)),
                         OnFileLoaded (inputPath (a_input c))
                           (case loadOne load (inputPath (a_input c)) of
                              Inr (text, ok) \<Rightarrow> ok
                            | Inl err \<Rightarrow> False)]) (a_pendingToolCalls ?s))"
  let ?updated = "msgs @
                [AMessage ''assistant''
                   (ABlocks ((if a_fullResponse ?s \<noteq> [] then [AText (a_fullResponse ?s)] else [])
                             @ a_contentBlocks ?s)),
                 AMessage ''user'' (ABlocks ?results)]"
  have "\<forall>c \<in> set (a_pendingToolCalls ?s). a_name c = ''load_file'' \<and> (\<exists>p q. a_input c = Input p q)"
    using a_pending_names [of parse tin tout tws acc events] inputs by (simp add: list_all_iff)
  then have "a_resolveAll load (a_pendingToolCalls ?s) = (None, ?results, ?loaded)"
    by (rule a_resolveAll_inputs)
  then have round: "a_toolRound load ?s msgs = (None, ?updated, ?loaded)"
    by (simp add: a_toolRound_def Let_def)
  obtain c tr sent where rec: "a_makeStreamingRequest parse opts rs ?updated
      (a_inputTokens ?s) (a_outputTokens ?s) (a_webSearchCount ?s) (a_fullResponse ?s) = (c, tr, sent)"
    by (cases "a_makeStreamingRequest parse opts rs ?updated
      (a_inputTokens ?s) (a_outputTokens ?s) (a_webSearchCount ?s) (a_fullResponse ?s)")
  with a_sent_first [of parse opts rs ?updated "a_inputTokens ?s" "a_outputTokens ?s"
      "a_webSearchCount ?s" "a_fullResponse ?s"]
  obtain rest where sent: "sent = ?updated # rest" by auto
  have "a_makeStreamingRequest parse opts (Streamed events None # rs) msgs tin tout tws acc
        = (c, a_trace ?s @ ?loaded @ tr, msgs # ?updated # rest)"
    using load stop pending round rec sent by (simp add: Let_def)
  then show ?thesis by (simp add: Let_def)
qed

lemma o_sent_first:
  "\<exists>rest. snd (snd (o_makeStreamingRequest parse opts script msgs i o' acc)) = msgs # rest"
proof (cases script)
  case Nil
  then show ?thesis by simp
next
  case (Cons r rs)
  then show ?thesis
    by (cases r) (auto simp add: Let_def split: option.splits prod.splits)
qed

lemma g_sent_first:
  "\<exists>rest. snd (snd (g_makeStreamingRequest opts script msgs i o' acc)) = msgs # rest"
proof (cases script)
  case Nil
  then show ?thesis by simp
next
  case (Cons r rs)
  then show ?thesis
    by (cases r) (auto simp add: Let_def split: option.splits prod.splits)
qed

lemma o_tool_round:
  assumes load: "loadFileContents opts = Some load"
    and stop: "o_finishReason (foldl (o_handle parse) (o_start tin tout acc) chunks) = ''tool_calls''"
    and pending: "o_pendingToolCalls (foldl (o_handle parse) (o_start tin tout acc) chunks) \<noteq> []"
  shows "(let s = foldl (o_handle parse) (o_start tin tout acc) chunks;
              calls = map snd (o_pendingToolCalls s);
              run = o_makeStreamingRequest parse opts (Streamed chunks None # rs) msgs tin tout acc
          in take 2 (snd (snd run)) =
               [msgs,
                msgs @
                [OAssistant (if o_fullResponse s \<noteq> [] then Some (o_fullResponse s) else None) calls]
                @ concat (map (\<lambda>c. fst (o_resolve parse load c)) calls)] \<and>
             prefix (o_trace s @ concat (map (\<lambda>c. snd (o_resolve parse load c)) calls))
               (fst (snd run)))"
proof -
  let ?s = "foldl (o_handle parse) (o_start tin tout acc) chunks"
  let ?calls = "map snd (o_pendingToolCalls ?s)"
  let ?loaded = "concat (map (\<lambda>c. snd (o_resolve parse load c)) ?calls)"
  let ?updated = "msgs @
                [OAssistant (if o_fullResponse ?s \<noteq> [] then Some (o_fullResponse ?s) else None) ?calls]
                @ concat (map (\<lambda>c. fst (o_resolve parse load c)) ?calls)"
  have round: "o_toolRound parse load ?s msgs = (?updated, ?loaded)"
    by (simp add: o_toolRound_def Let_def comp_def)
  obtain c tr sent where rec: "o_makeStreamingRequest parse opts rs ?updated
      (o_inputTokens ?s) (o_outputTokens ?s) (o_fullResponse ?s) = (c, tr, sent)"
    by (cases "o_makeStreamingRequest parse opts rs ?updated
      (o_inputTokens ?s) (o_outputTokens ?s) (o_fullResponse ?s)")
  with o_sent_first [of parse opts rs ?updated "o_inputTokens ?s" "o_outputTokens ?s" "o_fullResponse ?s"]
  obtain rest where sent: "sent = ?updated # rest" by auto
  have "o_makeStreamingRequest parse opts (Streamed chunks None # rs) msgs tin tout acc
        = (c, o_trace ?s @ ?loaded @ tr, msgs # ?updated # rest)"
    using load stop pending round rec sent by (simp add: Let_def)
  then show ?thesis by (simp add: Let_def)
qed

lemma g_tool_round:
  assumes load: "loadFileContents opts = Some load"
    and pending: "g_pendingFunctionCalls (foldl g_handle (g_start tin tout acc) chunks) \<noteq> []"
  shows "(let s = foldl g_handle (g_start tin tout acc) chunks;
              calls = g_pendingFunctionCalls s;
              run = g_makeStreamingRequest opts (Streamed chunks None # rs) msgs tin tout acc
          in take 2 (snd (snd run)) =
               [msgs,
                msgs @
                [GContent ''model''
                   ((if g_fullResponse s \<noteq> [] then [GText (g_fullResponse s)] else [])
                    @ map GFunctionCall calls),
                 GContent ''user'' (concat (map (\<lambda>c. fst (g_resolve load c)) calls))]] \<and>
             prefix (g_trace s @ concat (map (\<lambda>c. snd (g_resolve load c)) calls))
               (fst (snd run)))"
proof -
  let ?s = "foldl g_handle (g_start tin tout acc) chunks"
  let ?calls = "g_pendingFunctionCalls ?s"
  let ?loaded = "concat (map (\<lambda>c. snd (g_resolve load c)) ?calls)"
  let ?updated = "msgs @
                [GContent ''model''
                   ((if g_fullResponse ?s \<noteq> [] then [GText (g_fullResponse ?s)] else [])
                    @ map GFunctionCall ?calls),
                 GContent ''user'' (concat (map (\<lambda>c. fst (g_resolve load c)) ?calls))]"
  have round: "g_toolRound load ?s msgs = (?updated, ?loaded)"
    by (simp add: g_toolRound_def Let_def comp_def)
  obtain c tr sent where rec: "g_makeStreamingRequest opts rs ?updated
      (g_inputTokens ?s) (g_outputTokens ?s) (g_fullResponse ?s) = (c, tr, sent)"
    by (cases "g_makeStreamingRequest opts rs ?updated
      (g_inputTokens ?s) (g_outputTokens ?s) (g_fullResponse ?s)")
  with g_sent_first [of opts rs ?updated "g_inputTokens ?s" "g_outputTokens ?s" "g_fullResponse ?s"]
  obtain rest where sent: "sent = ?updated # rest" by auto
  have "g_makeStreamingRequest opts (Streamed chunks None # rs) msgs tin tout acc
        = (c, g_trace ?s @ ?loaded @ tr, msgs # ?updated # rest)"
    using load pending round rec sent by (simp add: Let_def)
  then show ?thesis by (simp add: Let_def)
qed

lemma o_resolve_cases:
  "o_resolve parse load c =
     (if o_name c = ''load_file'' then
        (case parse (o_arguments c) of
           Parsed (Input p q) \<Rightarrow>
             ([OTool (o_id c)
                 (case loadOne load p of
                    Inr (text, ok) \<Rightarrow> text
                  | Inl err \<Rightarrow> errorLoading (messageOr err ''Unknown error''))],
              [OnFileLoad p,
               OnFileLoaded (case load p of LoaderThrows e \<Rightarrow> Str (o_arguments c) | LoaderReturns files \<Rightarrow> p)
                 (case loadOne load p of Inr (text, ok) \<Rightarrow> ok | Inl err \<Rightarrow> False)])
         | Parsed (NullInput m) \<Rightarrow>
             ([OTool (o_id c) (''Error loading file: '' @ m)], [OnFileLoaded (Str (o_arguments c)) False])
         | ParseError m \<Rightarrow>
             ([OTool (o_id c) (''Error loading file: '' @ m)], [OnFileLoaded (Str (o_arguments c)) False]))
      else ([], []))"
  by (simp add: o_resolve_def errorLoading_def loadOne_def
      split: parsed_args.splits tool_input.splits loader_outcome.splits list.splits)

lemma g_resolve_cases:
  "g_resolve load c =
     (if g_name c = ''load_file'' then
        ([GFunctionResponse (g_name c)
            (case loadOne load (g_path c) of
               Inr (text, ok) \<Rightarrow> text
             | Inl err \<Rightarrow> errorLoading (messageOr err ''Unknown error''))],
         [OnFileLoad (g_path c),
          OnFileLoaded (g_path c)
            (case loadOne load (g_path c) of Inr (text, ok) \<Rightarrow> ok | Inl err \<Rightarrow> False)])
      else ([], []))"
  by (simp add: g_resolve_def Let_def split: sum.splits prod.splits)

lemma o_resolve_fst:
  "fst (o_resolve parse load c) =
     (if o_name c = ''load_file''
      then [OTool (o_id c)
              (case parse (o_arguments c) of
                 Parsed (Input p q) \<Rightarrow>
                   (case load p of
                      LoaderThrows e \<Rightarrow>
                        ''Error loading file: '' @ (case e of JsError n m \<Rightarrow> m | NonError \<Rightarrow> ''Unknown error'')
                    | LoaderReturns files \<Rightarrow>
                        (case files of
                           f # fs \<Rightarrow>
                             if prefix ''[Error'' (fileContent f)
                             then ''Error: Could not load file '' @ [CHR 0x22] @ render p @ [CHR 0x22]
                                    @ ''. Make sure the path is correct.''
                             else ''File: '' @ filePath f @ [CHR 0x0A, CHR 0x0A] @ fileContent f
                         | [] \<Rightarrow> ''Error: Could not load file '' @ [CHR 0x22] @ render p @ [CHR 0x22]
                                    @ ''. Make sure the path is correct.''))
               | Parsed (NullInput m) \<Rightarrow> ''Error loading file: '' @ m
               | ParseError m \<Rightarrow> ''Error loading file: '' @ m)]
      else [])"
  by (simp add: o_resolve_cases loadOne_text split: parsed_args.splits tool_input.splits)

lemma o_resolve_snd:
  "snd (o_resolve parse load c) =
     (if o_name c = ''load_file''
      then (case parse (o_arguments c) of
              Parsed (Input p q) \<Rightarrow>
                [OnFileLoad p,
                 OnFileLoaded (case load p of LoaderThrows e \<Rightarrow> Str (o_arguments c) | LoaderReturns files \<Rightarrow> p)
                   (case load p of
                      LoaderThrows e \<Rightarrow> False
                    | LoaderReturns files \<Rightarrow>
                        (case files of f # fs \<Rightarrow> \<not> prefix ''[Error'' (fileContent f) | [] \<Rightarrow> False))]
            | Parsed (NullInput m) \<Rightarrow> [OnFileLoaded (Str (o_arguments c)) False]
            | ParseError m \<Rightarrow> [OnFileLoaded (Str (o_arguments c)) False])
      else [])"
  by (simp add: o_resolve_cases loadOne_flag split: parsed_args.splits tool_input.splits)

lemma g_resolve_fst:
  "fst (g_resolve load c) =
     (if g_name c = ''load_file''
      then [GFunctionResponse (g_name c)
              (case load (g_path c) of
                 LoaderThrows e \<Rightarrow>
                   ''Error loading file: '' @ (case e of JsError n m \<Rightarrow> m | NonError \<Rightarrow> ''Unknown error'')
               | LoaderReturns files \<Rightarrow>
                   (case files of
                      f # fs \<Rightarrow>
                        if prefix ''[Error'' (fileContent f)
                        then ''Error: Could not load file '' @ [CHR 0x22] @ render (g_path c) @ [CHR 0x22]
                               @ ''. Make sure the path is correct.''
                        else ''File: '' @ filePath f @ [CHR 0x0A, CHR 0x0A] @ fileContent f
                    | [] \<Rightarrow> ''Error: Could not load file '' @ [CHR 0x22] @ render (g_path c) @ [CHR 0x22]
                               @ ''. Make sure the path is correct.''))]
      else [])"
  by (simp add: g_resolve_cases loadOne_text)

lemma g_resolve_snd:
  "snd (g_resolve load c) =
     (if g_name c = ''load_file''
      then [OnFileLoad (g_path c),
            OnFileLoaded (g_path c)
              (case load (g_path c) of
                 LoaderThrows e \<Rightarrow> False
               | LoaderReturns files \<Rightarrow>
                   (case files of f # fs \<Rightarrow> \<not> prefix ''[Error'' (fileContent f) | [] \<Rightarrow> False))]
      else [])"
  by (simp add: g_resolve_cases loadOne_flag)

text \<open>
  Claim C5, amended. Whenever a stream ends in a tool round, the next request carries the
  conversation so far, the assistant's turn with its tool calls, and one tool result for each
  \<open>load_file\<close> call, in the order of the calls; the callbacks of the round follow those
  of the stream. For a call with requested path \<open>p\<close>: when the loader returns a first
  file whose content does not start with \<open>[Error\<close>, the tool result is
  \<open>"File: <file.path>\n\n<content>"\<close> and the callbacks are \<open>onFileLoad(p)\<close>,
  \<open>onFileLoaded(p, true)\<close>; when it returns no file or an error-prefixed content, the
  tool result is the text "Error: Could not load file ..." naming \<open>p\<close> and the callbacks
  are \<open>onFileLoad(p)\<close>, \<open>onFileLoaded(p, false)\<close>; when the loader throws, the tool
  result is "Error loading file: " and the message, and \<open>onFileLoaded\<close> is called with
  \<open>false\<close>, and with \<open>p\<close> by the Anthropic and Gemini adapters, with the raw
  argument text by the OpenAI adapter. Arguments that do not parse, or that are \<open>null\<close>,
  reach the resolution of the OpenAI adapter, where no path exists: the tool result is
  "Error loading file: " and the message of the exception, and the one callback is
  \<open>onFileLoaded(arguments, false)\<close>. The Anthropic adapter keeps a call only when its
  arguments parse; its part is stated for calls whose arguments are not \<open>null\<close>.
\<close>

theorem load_file_resolution:
  "(let text = (\<lambda>p. case load p of
                  LoaderThrows e \<Rightarrow>
                    ''Error loading file: '' @ (case e of JsError n m \<Rightarrow> m | NonError \<Rightarrow> ''Unknown error'')
                | LoaderReturns files \<Rightarrow>
                    (case files of
                       f # fs \<Rightarrow>
                         if prefix ''[Error'' (fileContent f)
                         then ''Error: Could not load file '' @ [CHR 0x22] @ render p @ [CHR 0x22]
                                @ ''. Make sure the path is correct.''
                         else ''File: '' @ filePath f @ [CHR 0x0A, CHR 0x0A] @ fileContent f
                     | [] \<Rightarrow> ''Error: Could not load file '' @ [CHR 0x22] @ render p @ [CHR 0x22]
                                @ ''. Make sure the path is correct.''));
        ok = (\<lambda>p. case load p of
                  LoaderThrows e \<Rightarrow> False
                | LoaderReturns files \<Rightarrow>
                    (case files of f # fs \<Rightarrow> \<not> prefix ''[Error'' (fileContent f) | [] \<Rightarrow> False));
        sa = foldl (a_handle parse) (a_start tin tout tws acc) events;
        ra = a_makeStreamingRequest parse opts (Streamed events None # rs) msgs tin tout tws acc;
        so = foldl (o_handle parse) (o_start tin tout acc) chunks;
        ro = o_makeStreamingRequest parse opts (Streamed chunks None # ors) omsgs tin tout acc;
        sg = foldl g_handle (g_start tin tout acc) gchunks;
        rg = g_makeStreamingRequest opts (Streamed gchunks None # grs) gmsgs tin tout acc
    in
      (loadFileContents opts = Some load \<and> a_stopReason sa = ''tool_use'' \<and>
       a_pendingToolCalls sa \<noteq> [] \<and>
       list_all (\<lambda>c. \<exists>p q. a_input c = Input p q) (a_pendingToolCalls sa) \<longrightarrow>
         take 2 (snd (snd ra)) =
           [msgs,
            msgs @
            [AMessage ''assistant''
               (ABlocks ((if a_fullResponse sa \<noteq> [] then [AText (a_fullResponse sa)] else [])
                         @ a_contentBlocks sa)),
             AMessage ''user''
               (ABlocks (map (\<lambda>c. AToolResult (a_id c) (text (inputPath (a_input c))))
                           (a_pendingToolCalls sa)))]] \<and>
         prefix (a_trace sa @
                 concat (map (\<lambda>c. [OnFileLoad (inputPath (a_input c)),
                                    OnFileLoaded (inputPath (a_input c)) (ok (inputPath (a_input c)))])
                           (a_pendingToolCalls sa)))
           (fst (snd ra))) \<and>
      (loadFileContents opts = Some load \<and> o_finishReason so = ''tool_calls'' \<and>
       o_pendingToolCalls so \<noteq> [] \<longrightarrow>
         take 2 (snd (snd ro)) =
           [omsgs,
            omsgs @
            [OAssistant (if o_fullResponse so \<noteq> [] then Some (o_fullResponse so) else None)
               (map snd (o_pendingToolCalls so))]
            @ concat (map (\<lambda>c. if o_name c = ''load_file''
                                 then [OTool (o_id c)
                                         (case parse (o_arguments c) of
                                            Parsed (Input p q) \<Rightarrow> text p
                                          | Parsed (NullInput m) \<Rightarrow> ''Error loading file: '' @ m
                                          | ParseError m \<Rightarrow> ''Error loading file: '' @ m)]
                                 else [])
                        (map snd (o_pendingToolCalls so)))] \<and>
         prefix (o_trace so @
                 concat (map (\<lambda>c. if o_name c = ''load_file''
                                    then (case parse (o_arguments c) of
                                            Parsed (Input p q) \<Rightarrow>
                                              [OnFileLoad p,
                                               OnFileLoaded
                                                 (case load p of
                                                    LoaderThrows e \<Rightarrow> Str (o_arguments c)
                                                  | LoaderReturns files \<Rightarrow> p)
                                                 (ok p)]
                                          | Parsed (NullInput m) \<Rightarrow>
                                              [OnFileLoaded (Str (o_arguments c)) False]
                                          | ParseError m \<Rightarrow>
                                              [OnFileLoaded (Str (o_arguments c)) False])
                                    else [])
                           (map snd (o_pendingToolCalls so))))
           (fst (snd ro))) \<and>
      (loadFileContents opts = Some load \<and> g_pendingFunctionCalls sg \<noteq> [] \<longrightarrow>
         take 2 (snd (snd rg)) =
           [gmsgs,
            gmsgs @
            [GContent ''model''
               ((if g_fullResponse sg \<noteq> [] then [GText (g_fullResponse sg)] else [])
                @ map GFunctionCall (g_pendingFunctionCalls sg)),
             GContent ''user''
               (concat (map (\<lambda>c. if g_name c = ''load_file''
                                   then [GFunctionResponse (g_name c) (text (g_path c))] else [])
                          (g_pendingFunctionCalls sg)))]] \<and>
         prefix (g_trace sg @
                 concat (map (\<lambda>c. if g_name c = ''load_file''
                                    then [OnFileLoad (g_path c), OnFileLoaded (g_path c) (ok (g_path c))]
                                    else [])
                           (g_pendingFunctionCalls sg)))
           (fst (snd rg))))"
proof -
  note a = a_tool_round [of opts load parse tin tout tws acc events rs msgs]
  note o = o_tool_round [of opts load parse tin tout acc chunks ors omsgs]
  note g = g_tool_round [of opts load tin tout acc gchunks grs gmsgs]
  show ?thesis
    unfolding Let_def
    apply (intro conjI impI; elim conjE)
    subgoal using a by (simp add: Let_def loadOne_text loadOne_flag del: a_makeStreamingRequest.simps)
    subgoal using a by (simp add: Let_def loadOne_text loadOne_flag del: a_makeStreamingRequest.simps)
    subgoal using o by (simp add: Let_def loadOne_text loadOne_flag o_resolve_fst o_resolve_snd del: o_makeStreamingRequest.simps)
    subgoal using o by (simp add: Let_def loadOne_text loadOne_flag o_resolve_fst o_resolve_snd del: o_makeStreamingRequest.simps)
    subgoal using g by (simp add: Let_def loadOne_text loadOne_flag g_resolve_fst g_resolve_snd del: g_makeStreamingRequest.simps)
    subgoal using g by (simp add: Let_def loadOne_text loadOne_flag g_resolve_fst g_resolve_snd del: g_makeStreamingRequest.simps)
    done
qed

lemma aTool_state:
  "foldl (a_handle parseExample) (a_start 0 0 0 []) aTool =
     \<lparr> a_fullResponse = [], a_currentToolId = [], a_currentToolName = [],
       a_currentToolInput = [], a_webSearchCount = 0, a_inputTokens = 100,
       a_outputTokens = 20, a_stopReason = ''tool_use'',
       a_pendingToolCalls =
         [\<lparr> a_id = ''toolu_1'', a_name = ''load_file'',
            a_input = Input (Str ''notes/a.md'') Undefined \<rparr>],
       a_contentBlocks = [AToolUse ''toolu_1'' ''load_file'' argsExample],
       a_trace = [OnFileLoad (Str ''Loading file...''), OnFileLoad (Str ''notes/a.md'')] \<rparr>"
  by code_simp

lemma oTool_state:
  "foldl (o_handle parseExample) (o_start 0 0 []) oTool =
     \<lparr> o_fullResponse = [], o_inputTokens = 100, o_outputTokens = 20,
       o_pendingToolCalls =
         [(0, \<lparr> o_id = ''call_1'', o_name = ''load_file'', o_arguments = argsExample \<rparr>)],
       o_finishReason = ''tool_calls'',
       o_trace = [OnFileLoad (Str ''Loading file...''), OnFileLoad (Str ''notes/a.md'')] \<rparr>"
  by code_simp

lemma gMissing_state:
  "foldl g_handle (g_start 0 0 []) gMissing =
     \<lparr> g_fullResponse = [], g_inputTokens = 0, g_outputTokens = 0,
       g_pendingFunctionCalls = [\<lparr> g_name = ''load_file'', g_path = Str ''missing.md'' \<rparr>],
       g_finishReason = [], g_trace = [OnFileLoad (Str ''missing.md'')] \<rparr>"
  by code_simp

lemma parseExample_args: "parseExample argsExample = Parsed (Input (Str ''notes/a.md'') Undefined)"
  by (simp add: parseExample_def)

lemma opts_loaders:
  "loadFileContents optsExample = Some loaderExample"
  "loadFileContents optsOffline = Some loaderOffline"
  by (simp_all add: optsExample_def optsOffline_def)

theorem load_file_resolution_witness:
  "take 2 (snd (snd (a_makeStreamingRequest parseExample optsExample [Streamed aTool None]
       [AMessage ''user'' (AString ''hi'')] 0 0 0 []))) =
     [[AMessage ''user'' (AString ''hi'')],
      [AMessage ''user'' (AString ''hi''),
       AMessage ''assistant'' (ABlocks [AToolUse ''toolu_1'' ''load_file'' argsExample]),
       AMessage ''user''
         (ABlocks [AToolResult ''toolu_1'' (''File: notes/a.md'' @ [CHR 0x0A, CHR 0x0A] @ ''hello'')])]] \<and>
   prefix [OnFileLoad (Str ''Loading file...''), OnFileLoad (Str ''notes/a.md''),
           OnFileLoad (Str ''notes/a.md''), OnFileLoaded (Str ''notes/a.md'') True]
     (fst (snd (a_makeStreamingRequest parseExample optsExample [Streamed aTool None]
        [AMessage ''user'' (AString ''hi'')] 0 0 0 []))) \<and>
   take 2 (snd (snd (o_makeStreamingRequest parseExample optsOffline [Streamed oTool None]
       [OMessage ''developer'' ''sys'', OMessage ''user'' ''hi''] 0 0 []))) =
     [[OMessage ''developer'' ''sys'', OMessage ''user'' ''hi''],
      [OMessage ''developer'' ''sys'', OMessage ''user'' ''hi'',
       OAssistant None [\<lparr> o_id = ''call_1'', o_name = ''load_file'', o_arguments = argsExample \<rparr>],
       OTool ''call_1'' ''Error loading file: Failed to fetch'']] \<and>
   take 2 (snd (snd (g_makeStreamingRequest optsExample [Streamed gMissing None]
       [GContent ''user'' [GText ''hi'']] 0 0 []))) =
     [[GContent ''user'' [GText ''hi'']],
      [GContent ''user'' [GText ''hi''],
       GContent ''model'' [GFunctionCall \<lparr> g_name = ''load_file'', g_path = Str ''missing.md'' \<rparr>],
       GContent ''user''
         [GFunctionResponse ''load_file''
            (''Error: Could not load file '' @ [CHR 0x22] @ ''missing.md'' @ [CHR 0x22]
               @ ''. Make sure the path is correct.'')]]] \<and>
   prefix [OnFileLoad (Str ''missing.md''), OnFileLoad (Str ''missing.md''),
           OnFileLoaded (Str ''missing.md'') False]
     (fst (snd (g_makeStreamingRequest optsExample [Streamed gMissing None]
        [GContent ''user'' [GText ''hi'']] 0 0 [])))"
  using load_file_resolution [where load = loaderExample and opts = optsExample
          and parse = parseExample and tin = 0 and tout = 0 and tws = 0 and acc = "[]"
          and events = aTool and rs = "[]" and msgs = "[AMessage ''user'' (AString ''hi'')]"
          and chunks = "[]" and ors = "[]" and omsgs = "[]"
          and gchunks = gMissing and grs = "[]" and gmsgs = "[GContent ''user'' [GText ''hi'']]"]
        load_file_resolution [where load = loaderOffline and opts = optsOffline
          and parse = parseExample and tin = 0 and tout = 0 and tws = 0 and acc = "[]"
          and events = "[]" and rs = "[]" and msgs = "[]"
          and chunks = oTool and ors = "[]"
          and omsgs = "[OMessage ''developer'' ''sys'', OMessage ''user'' ''hi'']"
          and gchunks = "[]" and grs = "[]" and gmsgs = "[]"]
        opts_loaders
  by (simp add: Let_def aTool_state oTool_state gMissing_state parseExample_args
      loaderExample_def loaderOffline_def
      del: a_makeStreamingRequest.simps o_makeStreamingRequest.simps g_makeStreamingRequest.simps)

text \<open>
  The claim as stated fails where no requested path exists or the catch has none at hand.
  In the OpenAI adapter, arguments that do not parse are answered with
  \<open>onFileLoaded("{", false)\<close>, the raw argument text; and when the loader throws,
  \<open>onFileLoaded\<close> is called with the argument text \<open>{"path":"notes/a.md"}\<close>, not with
  the requested path \<open>notes/a.md\<close>. In the Anthropic adapter, arguments that do not parse
  give no tool result and no \<open>onFileLoaded\<close> call at all: the call is dropped when its
  block closes and the turn completes.
\<close>

theorem openai_reports_raw_arguments:
  "openai_sendMessage parseExample optsExample [Streamed oBroken None] =
     (False,
      [OnStart, OnFileLoad (Str ''Loading file...''), OnFileLoaded (Str ''{'') False],
      [[OMessage ''developer'' ''sys'', OMessage ''user'' ''hi''],
       [OMessage ''developer'' ''sys'', OMessage ''user'' ''hi'',
        OAssistant None [\<lparr> o_id = ''call_1'', o_name = ''load_file'', o_arguments = ''{'' \<rparr>],
        OTool ''call_1'' ''Error loading file: Unexpected end of JSON input'']]) \<and>
   openai_sendMessage parseExample optsOffline [Streamed oTool None] =
     (False,
      [OnStart, OnFileLoad (Str ''Loading file...''), OnFileLoad (Str ''notes/a.md''),
       OnFileLoad (Str ''notes/a.md''), OnFileLoaded (Str argsExample) False],
      [[OMessage ''developer'' ''sys'', OMessage ''user'' ''hi''],
       [OMessage ''developer'' ''sys'', OMessage ''user'' ''hi'',
        OAssistant None [\<lparr> o_id = ''call_1'', o_name = ''load_file'', o_arguments = argsExample \<rparr>],
        OTool ''call_1'' ''Error loading file: Failed to fetch'']]) \<and>
   Str argsExample \<noteq> Str ''notes/a.md'' \<and>
   anthropic_sendMessage parseExample optsExample [Streamed aBroken None] =
     (True,
      [OnStart, OnFileLoad (Str ''Loading file...''), OnComplete []],
      [[AMessage ''user'' (AString ''hi'')]])"
  by code_simp

text \<open>
  A \<open>null\<close> path is named \<open>null\<close> in the tool result. Tool arguments that are the JSON
  value \<open>null\<close> end the turn of the Anthropic adapter with \<open>onError\<close>: the TypeError of
  reading \<open>toolCall.input.path\<close> is raised outside the \<open>try\<close> of the loop.
\<close>

lemma null_path_and_null_input:
  "gemini_sendMessage optsExample [Streamed gNull None] =
     (False,
      [OnStart, OnFileLoad (Str ''Loading file...''), OnFileLoad Null, OnFileLoaded Null False],
      [[GContent ''user'' [GText ''hi'']],
       [GContent ''user'' [GText ''hi''],
        GContent ''model'' [GFunctionCall \<lparr> g_name = ''load_file'', g_path = Null \<rparr>],
        GContent ''user''
          [GFunctionResponse ''load_file''
             (''Error: Could not load file '' @ [CHR 0x22] @ ''null'' @ [CHR 0x22]
                @ ''. Make sure the path is correct.'')]]])"
  "anthropic_sendMessage parseNull optsExample [Streamed aNull None] =
     (True,
      [OnStart, OnFileLoad (Str ''Loading file...''),
       OnError ''Cannot read properties of null (reading 'path')''],
      [[AMessage ''user'' (AString ''hi'')]])"
  by code_simp+

subsection \<open>Turns without tool calls\<close>

lemma a_blockDelta_plain:
  assumes "a_currentToolName s = []"
  shows "a_trace (a_blockDelta parse d s) = a_trace s @ map OnToken (a_textDeltas [ContentBlockDelta d]) \<and>
         a_fullResponse (a_blockDelta parse d s) = a_fullResponse s @ concat (a_textDeltas [ContentBlockDelta d]) \<and>
         a_currentToolName (a_blockDelta parse d s) = [] \<and>
         a_pendingToolCalls (a_blockDelta parse d s) = a_pendingToolCalls s \<and>
         a_inputTokens (a_blockDelta parse d s) = a_inputTokens s \<and>
         a_outputTokens (a_blockDelta parse d s) = a_outputTokens s \<and>
         a_webSearchCount (a_blockDelta parse d s) = a_webSearchCount s"
proof (cases d)
  case (TextDelta t)
  then show ?thesis using assms by (cases t) (simp_all add: a_textDeltas_def a_emit_def)
next
  case (InputJsonDelta j)
  then show ?thesis using assms by (cases j) (simp_all add: a_textDeltas_def Let_def)
next
  case OtherDelta
  then show ?thesis using assms by (simp add: a_textDeltas_def)
qed

lemma a_plain_step:
  assumes "\<not> a_isToolStart ev" "a_currentToolName s = []"
  shows "a_trace (a_handle parse s ev) = a_trace s @ map OnToken (a_textDeltas [ev]) \<and>
         a_fullResponse (a_handle parse s ev) = a_fullResponse s @ concat (a_textDeltas [ev]) \<and>
         a_currentToolName (a_handle parse s ev) = [] \<and>
         a_pendingToolCalls (a_handle parse s ev) = a_pendingToolCalls s"
proof (cases ev)
  case (ContentBlockStart b)
  then show ?thesis using assms by (cases b) (simp_all add: a_textDeltas_def)
next
  case (ContentBlockDelta d)
  then show ?thesis using a_blockDelta_plain [OF assms(2), of parse d] by simp
next
  case ContentBlockStop
  then show ?thesis using assms by (simp add: a_textDeltas_def a_blockStop_def)
next
  case (MessageStart u)
  then show ?thesis using assms by (simp add: a_textDeltas_def)
next
  case (MessageDelta u r)
  then show ?thesis using assms by (simp add: a_textDeltas_def Let_def)
next
  case OtherEvent
  then show ?thesis using assms by (simp add: a_textDeltas_def)
qed

lemma a_textDeltas_Cons: "a_textDeltas (ev # evs) = a_textDeltas [ev] @ a_textDeltas evs"
  by (simp add: a_textDeltas_def)

lemma a_plain_fold:
  assumes "\<not> list_ex a_isToolStart evs" "a_currentToolName s = []"
  shows "a_trace (foldl (a_handle parse) s evs) = a_trace s @ map OnToken (a_textDeltas evs) \<and>
         a_fullResponse (foldl (a_handle parse) s evs) = a_fullResponse s @ concat (a_textDeltas evs) \<and>
         a_pendingToolCalls (foldl (a_handle parse) s evs) = a_pendingToolCalls s"
  using assms
proof (induction evs arbitrary: s)
  case Nil
  then show ?case by (simp add: a_textDeltas_def)
next
  case (Cons ev evs)
  from Cons.prems have ev: "\<not> a_isToolStart ev" and evs: "\<not> list_ex a_isToolStart evs" by simp_all
  note step = a_plain_step [OF ev Cons.prems(2), of parse]
  from step have name: "a_currentToolName (a_handle parse s ev) = []" by simp
  show ?case
    using Cons.IH [OF evs name] step
    by (simp add: a_textDeltas_Cons [of ev evs])
qed

lemma o_plain_step:
  assumes "\<not> o_hasToolCalls chunk"
  shows "o_trace (o_handle parse s chunk) = o_trace s @ map OnToken (o_textDeltas [chunk]) \<and>
         o_fullResponse (o_handle parse s chunk) = o_fullResponse s @ concat (o_textDeltas [chunk]) \<and>
         o_pendingToolCalls (o_handle parse s chunk) = o_pendingToolCalls s"
proof (cases "o_delta chunk")
  case None
  then show ?thesis
    by (simp add: o_handle_def o_textDeltas_def o_textOf_def Let_def split: option.splits prod.splits)
next
  case (Some d)
  obtain content calls where d: "d = ODelta content calls" by (cases d)
  from assms Some d have calls: "calls = None \<or> calls = Some []"
    by (cases calls) (simp_all add: o_hasToolCalls_def)
  show ?thesis using Some d calls
    by (cases content)
       (auto simp add: o_handle_def o_textDeltas_def o_textOf_def Let_def split: option.splits prod.splits)
qed

lemma o_textDeltas_Cons: "o_textDeltas (c # cs) = o_textDeltas [c] @ o_textDeltas cs"
  by (simp add: o_textDeltas_def)

lemma o_plain_fold:
  assumes "\<not> list_ex o_hasToolCalls chunks"
  shows "o_trace (foldl (o_handle parse) s chunks) = o_trace s @ map OnToken (o_textDeltas chunks) \<and>
         o_fullResponse (foldl (o_handle parse) s chunks) = o_fullResponse s @ concat (o_textDeltas chunks) \<and>
         o_pendingToolCalls (foldl (o_handle parse) s chunks) = o_pendingToolCalls s"
  using assms
proof (induction chunks arbitrary: s)
  case Nil
  then show ?case by (simp add: o_textDeltas_def)
next
  case (Cons c cs)
  from Cons.prems have c: "\<not> o_hasToolCalls c" and cs: "\<not> list_ex o_hasToolCalls cs" by simp_all
  show ?case
    using Cons.IH [OF cs, of "o_handle parse s c"] o_plain_step [OF c, of parse s]
    by (simp add: o_textDeltas_Cons [of c cs])
qed

lemma g_plain_parts:
  assumes "\<not> list_ex (\<lambda>part. g_functionCall part \<noteq> None) ps"
  shows "g_trace (foldl g_handlePart s ps) =
           g_trace s @ map OnToken (filter (\<lambda>t. t \<noteq> []) (map (\<lambda>part. orElse (g_text part) []) ps)) \<and>
         g_fullResponse (foldl g_handlePart s ps) =
           g_fullResponse s @ concat (filter (\<lambda>t. t \<noteq> []) (map (\<lambda>part. orElse (g_text part) []) ps)) \<and>
         g_pendingFunctionCalls (foldl g_handlePart s ps) = g_pendingFunctionCalls s"
  using assms
proof (induction ps arbitrary: s)
  case Nil
  then show ?case by simp
next
  case (Cons p ps)
  from Cons.prems have p: "g_functionCall p = None"
    and ps: "\<not> list_ex (\<lambda>part. g_functionCall part \<noteq> None) ps" by simp_all
  have step: "g_trace (g_handlePart s p) = g_trace s @ map OnToken (filter (\<lambda>t. t \<noteq> []) [orElse (g_text p) []]) \<and>
      g_fullResponse (g_handlePart s p) = g_fullResponse s @ concat (filter (\<lambda>t. t \<noteq> []) [orElse (g_text p) []]) \<and>
      g_pendingFunctionCalls (g_handlePart s p) = g_pendingFunctionCalls s"
    using p by (cases "g_text p") (simp_all add: g_handlePart_def)
  show ?case using Cons.IH [OF ps, of "g_handlePart s p"] step by simp
qed

lemma g_plain_step:
  assumes "\<not> g_hasFunctionCall chunk"
  shows "g_trace (g_handle s chunk) = g_trace s @ map OnToken (g_textDeltas [chunk]) \<and>
         g_fullResponse (g_handle s chunk) = g_fullResponse s @ concat (g_textDeltas [chunk]) \<and>
         g_pendingFunctionCalls (g_handle s chunk) = g_pendingFunctionCalls s"
proof -
  note parts = g_plain_parts [OF assms [unfolded g_hasFunctionCall_def], of s]
  show ?thesis
    using parts
    by (auto simp add: g_handle_def g_textDeltas_def g_partsOf_def Let_def
        split: option.splits prod.splits)
qed

lemma g_textDeltas_Cons: "g_textDeltas (c # cs) = g_textDeltas [c] @ g_textDeltas cs"
  by (simp add: g_textDeltas_def)

lemma g_plain_fold:
  assumes "\<not> list_ex g_hasFunctionCall chunks"
  shows "g_trace (foldl g_handle s chunks) = g_trace s @ map OnToken (g_textDeltas chunks) \<and>
         g_fullResponse (foldl g_handle s chunks) = g_fullResponse s @ concat (g_textDeltas chunks) \<and>
         g_pendingFunctionCalls (foldl g_handle s chunks) = g_pendingFunctionCalls s"
  using assms
proof (induction chunks arbitrary: s)
  case Nil
  then show ?case by (simp add: g_textDeltas_def)
next
  case (Cons c cs)
  from Cons.prems have c: "\<not> g_hasFunctionCall c" and cs: "\<not> list_ex g_hasFunctionCall cs" by simp_all
  show ?case
    using Cons.IH [OF cs, of "g_handle s c"] g_plain_step [OF c, of s]
    by (simp add: g_textDeltas_Cons [of c cs])
qed

lemma usageCallbacks_shape:
  "usageCallbacks model tin tout searches = [] \<or>
   (\<exists>u. usageCallbacks model tin tout searches = [OnUsage u] \<and> (0 < inputTokens u \<or> 0 < outputTokens u))"
  by (simp add: usageCallbacks_def)

lemma a_plain_turn:
  assumes "\<not> list_ex a_isToolStart events"
  shows "\<exists>usage. a_makeStreamingRequest parse opts (Streamed events None # rest) msgs 0 0 0 [] =
           (Returned, map OnToken (a_textDeltas events) @ usage @ [OnComplete (concat (a_textDeltas events))], [msgs]) \<and>
           (usage = [] \<or> (\<exists>u. usage = [OnUsage u] \<and> (0 < inputTokens u \<or> 0 < outputTokens u)))"
proof -
  let ?s = "foldl (a_handle parse) (a_start 0 0 0 []) events"
  have start: "a_currentToolName (a_start 0 0 0 []) = []" by (simp add: a_start_def)
  note fold = a_plain_fold [OF assms start, of parse]
  have tr: "a_trace ?s = map OnToken (a_textDeltas events)"
    and full: "a_fullResponse ?s = concat (a_textDeltas events)"
    and pend: "a_pendingToolCalls ?s = []"
    using fold by (simp_all add: a_start_def)
  let ?usage = "usageCallbacks (optModelId opts) (a_inputTokens ?s) (a_outputTokens ?s) (a_webSearchCount ?s)"
  have "a_makeStreamingRequest parse opts (Streamed events None # rest) msgs 0 0 0 [] =
          (Returned, map OnToken (a_textDeltas events) @ ?usage @ [OnComplete (concat (a_textDeltas events))], [msgs])"
    using tr full pend by (simp add: Let_def a_finish_def split: option.splits)
  then show ?thesis using usageCallbacks_shape by blast
qed

lemma o_plain_turn:
  assumes "\<not> list_ex o_hasToolCalls chunks"
  shows "\<exists>usage. o_makeStreamingRequest parse opts (Streamed chunks None # rest) msgs 0 0 [] =
           (Returned, map OnToken (o_textDeltas chunks) @ usage @ [OnComplete (concat (o_textDeltas chunks))], [msgs]) \<and>
           (usage = [] \<or> (\<exists>u. usage = [OnUsage u] \<and> (0 < inputTokens u \<or> 0 < outputTokens u)))"
proof -
  let ?s = "foldl (o_handle parse) (o_start 0 0 []) chunks"
  note fold = o_plain_fold [OF assms, of parse "o_start 0 0 []"]
  have tr: "o_trace ?s = map OnToken (o_textDeltas chunks)"
    and full: "o_fullResponse ?s = concat (o_textDeltas chunks)"
    and pend: "o_pendingToolCalls ?s = []"
    using fold by (simp_all add: o_start_def)
  let ?usage = "usageCallbacks (optModelId opts) (o_inputTokens ?s) (o_outputTokens ?s) 0"
  have "o_makeStreamingRequest parse opts (Streamed chunks None # rest) msgs 0 0 [] =
          (Returned, map OnToken (o_textDeltas chunks) @ ?usage @ [OnComplete (concat (o_textDeltas chunks))], [msgs])"
    using tr full pend by (simp add: Let_def o_finishTurn_def split: option.splits)
  then show ?thesis using usageCallbacks_shape by blast
qed

lemma g_plain_turn:
  assumes "\<not> list_ex g_hasFunctionCall chunks"
  shows "\<exists>usage. g_makeStreamingRequest opts (Streamed chunks None # rest) msgs 0 0 [] =
           (Returned, map OnToken (g_textDeltas chunks) @ usage @ [OnComplete (concat (g_textDeltas chunks))], [msgs]) \<and>
           (usage = [] \<or> (\<exists>u. usage = [OnUsage u] \<and> (0 < inputTokens u \<or> 0 < outputTokens u)))"
proof -
  let ?s = "foldl g_handle (g_start 0 0 []) chunks"
  note fold = g_plain_fold [OF assms, of "g_start 0 0 []"]
  have tr: "g_trace ?s = map OnToken (g_textDeltas chunks)"
    and full: "g_fullResponse ?s = concat (g_textDeltas chunks)"
    and pend: "g_pendingFunctionCalls ?s = []"
    using fold by (simp_all add: g_start_def)
  let ?usage = "usageCallbacks (optModelId opts) (g_inputTokens ?s) (g_outputTokens ?s) 0"
  have "g_makeStreamingRequest opts (Streamed chunks None # rest) msgs 0 0 [] =
          (Returned, map OnToken (g_textDeltas chunks) @ ?usage @ [OnComplete (concat (g_textDeltas chunks))], [msgs])"
    using tr full pend by (simp add: Let_def g_finish_def split: option.splits)
  then show ?thesis using usageCallbacks_shape by blast
qed

lemma anthropic_plain:
  assumes "\<not> list_ex a_isToolStart events"
  shows "\<exists>usage sent.
         anthropic_sendMessage parse opts (Streamed events None # rest) =
           (True, [OnStart] @ map OnToken (a_textDeltas events) @ usage
              @ [OnComplete (concat (a_textDeltas events))], sent) \<and>
         (usage = [] \<or> (\<exists>u. usage = [OnUsage u] \<and> (0 < inputTokens u \<or> 0 < outputTokens u)))"
proof -
  let ?msgs = "map (\<lambda>(r, c). AMessage (roleName r) (AString c)) (messages opts)"
  from a_plain_turn [OF assms, of parse opts rest ?msgs]
  obtain usage where r: "a_makeStreamingRequest parse opts (Streamed events None # rest) ?msgs 0 0 0 [] =
      (Returned, map OnToken (a_textDeltas events) @ usage @ [OnComplete (concat (a_textDeltas events))], [?msgs])"
    and u: "usage = [] \<or> (\<exists>u. usage = [OnUsage u] \<and> (0 < inputTokens u \<or> 0 < outputTokens u))"
    by blast
  have "anthropic_sendMessage parse opts (Streamed events None # rest) =
      (True, [OnStart] @ map OnToken (a_textDeltas events) @ usage
         @ [OnComplete (concat (a_textDeltas events))], [?msgs])"
    unfolding anthropic_sendMessage_def r by simp
  with u show ?thesis by blast
qed

lemma openai_plain:
  assumes "\<not> list_ex o_hasToolCalls chunks"
  shows "\<exists>usage sent.
         openai_sendMessage parse opts (Streamed chunks None # rest) =
           (True, [OnStart] @ map OnToken (o_textDeltas chunks) @ usage
              @ [OnComplete (concat (o_textDeltas chunks))], sent) \<and>
         (usage = [] \<or> (\<exists>u. usage = [OnUsage u] \<and> (0 < inputTokens u \<or> 0 < outputTokens u)))"
proof -
  let ?msgs = "OMessage ''developer'' (systemPrompt opts)
              # map (\<lambda>(r, c). OMessage (roleName r) c) (messages opts)"
  from o_plain_turn [OF assms, of parse opts rest ?msgs]
  obtain usage where r: "o_makeStreamingRequest parse opts (Streamed chunks None # rest) ?msgs 0 0 [] =
      (Returned, map OnToken (o_textDeltas chunks) @ usage @ [OnComplete (concat (o_textDeltas chunks))], [?msgs])"
    and u: "usage = [] \<or> (\<exists>u. usage = [OnUsage u] \<and> (0 < inputTokens u \<or> 0 < outputTokens u))"
    by blast
  have "openai_sendMessage parse opts (Streamed chunks None # rest) =
      (True, [OnStart] @ map OnToken (o_textDeltas chunks) @ usage
         @ [OnComplete (concat (o_textDeltas chunks))], [?msgs])"
    unfolding openai_sendMessage_def r by simp
  with u show ?thesis by blast
qed

lemma gemini_plain:
  assumes "\<not> list_ex g_hasFunctionCall chunks"
  shows "\<exists>usage sent.
         gemini_sendMessage opts (Streamed chunks None # rest) =
           (True, [OnStart] @ map OnToken (g_textDeltas chunks) @ usage
              @ [OnComplete (concat (g_textDeltas chunks))], sent) \<and>
         (usage = [] \<or> (\<exists>u. usage = [OnUsage u] \<and> (0 < inputTokens u \<or> 0 < outputTokens u)))"
proof -
  let ?msgs = "map (\<lambda>(r, c). GContent (if r = Assistant then ''model'' else ''user'') [GText c])
                (messages opts)"
  from g_plain_turn [OF assms, of opts rest ?msgs]
  obtain usage where r: "g_makeStreamingRequest opts (Streamed chunks None # rest) ?msgs 0 0 [] =
      (Returned, map OnToken (g_textDeltas chunks) @ usage @ [OnComplete (concat (g_textDeltas chunks))], [?msgs])"
    and u: "usage = [] \<or> (\<exists>u. usage = [OnUsage u] \<and> (0 < inputTokens u \<or> 0 < outputTokens u))"
    by blast
  have "gemini_sendMessage opts (Streamed chunks None # rest) =
      (True, [OnStart] @ map OnToken (g_textDeltas chunks) @ usage
         @ [OnComplete (concat (g_textDeltas chunks))], [?msgs])"
    unfolding gemini_sendMessage_def r by simp
  with u show ?thesis by blast
qed

text \<open>
  Claim C2. For each adapter, when the first response streams to its end and holds no tool
  call, \<open>sendMessage\<close> settles and its callbacks are, in this order: \<open>onStart\<close>, one
  \<open>onToken\<close> for each text delta, at most one \<open>onUsage\<close> (and then with a positive
  input or output count), and \<open>onComplete\<close> with the concatenation of the text deltas.
  No other callback is made, so \<open>onError\<close> is not.
\<close>

theorem plain_turn_callbacks:
  "(\<not> list_ex a_isToolStart events \<longrightarrow>
      (\<exists>usage sent.
         anthropic_sendMessage parse opts (Streamed events None # rest) =
           (True,
            [OnStart] @ map OnToken (a_textDeltas events) @ usage
              @ [OnComplete (concat (a_textDeltas events))],
            sent) \<and>
         (usage = [] \<or> (\<exists>u. usage = [OnUsage u] \<and> (0 < inputTokens u \<or> 0 < outputTokens u))))) \<and>
   (\<not> list_ex o_hasToolCalls chunks \<longrightarrow>
      (\<exists>usage sent.
         openai_sendMessage parse opts (Streamed chunks None # rest') =
           (True,
            [OnStart] @ map OnToken (o_textDeltas chunks) @ usage
              @ [OnComplete (concat (o_textDeltas chunks))],
            sent) \<and>
         (usage = [] \<or> (\<exists>u. usage = [OnUsage u] \<and> (0 < inputTokens u \<or> 0 < outputTokens u))))) \<and>
   (\<not> list_ex g_hasFunctionCall gchunks \<longrightarrow>
      (\<exists>usage sent.
         gemini_sendMessage opts (Streamed gchunks None # rest'') =
           (True,
            [OnStart] @ map OnToken (g_textDeltas gchunks) @ usage
              @ [OnComplete (concat (g_textDeltas gchunks))],
            sent) \<and>
         (usage = [] \<or> (\<exists>u. usage = [OnUsage u] \<and> (0 < inputTokens u \<or> 0 < outputTokens u)))))"
  using anthropic_plain [of events parse opts rest] openai_plain [of chunks parse opts rest']
    gemini_plain [of gchunks opts rest'']
  by blast

theorem plain_turn_callbacks_witness:
  "(\<exists>usage sent. anthropic_sendMessage parseExample optsExample [Streamed aPlain None] =
      (True, [OnStart, OnToken ''Hel'', OnToken ''lo''] @ usage @ [OnComplete ''Hello''], sent)) \<and>
   (\<exists>usage sent. openai_sendMessage parseExample optsExample [Streamed oPlain None] =
      (True, [OnStart, OnToken ''Hel'', OnToken ''lo''] @ usage @ [OnComplete ''Hello''], sent)) \<and>
   (\<exists>usage sent. gemini_sendMessage optsExample [Streamed gPlain None] =
      (True, [OnStart, OnToken ''Hel'', OnToken ''lo''] @ usage @ [OnComplete ''Hello''], sent))"
proof -
  have a: "\<not> list_ex a_isToolStart aPlain" "a_textDeltas aPlain = [''Hel'', ''lo'']"
    by (simp_all add: aPlain_def a_textDeltas_def)
  have o: "\<not> list_ex o_hasToolCalls oPlain" "o_textDeltas oPlain = [''Hel'', ''lo'']"
    by (simp_all add: oPlain_def o_textDeltas_def o_hasToolCalls_def o_textOf_def)
  have g: "\<not> list_ex g_hasFunctionCall gPlain" "g_textDeltas gPlain = [''Hel'', ''lo'']"
    by (simp_all add: gPlain_def g_textDeltas_def g_hasFunctionCall_def g_partsOf_def)
  show ?thesis
    using plain_turn_callbacks [where events = aPlain and chunks = oPlain and gchunks = gPlain
        and parse = parseExample and opts = optsExample and rest = "[]" and rest' = "[]"
        and rest'' = "[]"] a o g
    by simp blast
qed

subsection \<open>Cancelled turns\<close>

lemma a_handle_silent:
  assumes "list_all silent (a_trace s)"
  shows "list_all silent (a_trace (a_handle parse s ev))"
proof (cases ev)
  case (ContentBlockStart b)
  then show ?thesis using assms
    by (cases "(b, s)" rule: a_blockStart.cases) (simp_all add: a_emit_def silent_def)
next
  case (ContentBlockDelta d)
  then show ?thesis using assms
    by (cases d)
       (simp_all add: a_emit_def silent_def Let_def split: parsed_args.splits tool_input.splits)
next
  case ContentBlockStop
  then show ?thesis using assms by (simp add: a_blockStop_def Let_def split: parsed_args.splits)
next
  case (MessageDelta u r)
  then show ?thesis using assms by (simp add: Let_def)
qed (use assms in simp_all)

lemma a_fold_silent:
  "list_all silent (a_trace s) \<Longrightarrow> list_all silent (a_trace (foldl (a_handle parse) s evs))"
  by (induction evs arbitrary: s) (simp_all add: a_handle_silent)

lemma a_start_silent: "list_all silent (a_trace (foldl (a_handle parse) (a_start i o' w acc) evs))"
  by (rule a_fold_silent) (simp add: a_start_def)

lemma a_resolve_silent: "a_resolve load call = Inr (results, calls) \<Longrightarrow> list_all silent calls"
  by (auto simp add: a_resolve_def silent_def split: if_splits tool_input.splits sum.splits)

lemma a_resolveAll_silent: "list_all silent (snd (snd (a_resolveAll load calls)))"
  by (induction calls) (auto split: sum.splits prod.splits dest: a_resolve_silent)

lemma a_toolRound_silent: "list_all silent (snd (snd (a_toolRound load s msgs)))"
  using a_resolveAll_silent [of load "a_pendingToolCalls s"]
  by (auto simp add: a_toolRound_def Let_def split: prod.splits)

lemma a_abort:
  assumes "isAbortRound r"
    and "fst (a_makeStreamingRequest parse opts pre msgs i o' w acc) = Pending"
  shows "\<exists>e tr sent. a_makeStreamingRequest parse opts (pre @ r # post) msgs i o' w acc = (Threw e, tr, sent)
           \<and> isAbortError e \<and> list_all silent tr"
  using assms(2)
proof (induction pre arbitrary: msgs i o' w acc)
  case Nil
  show ?case
  proof (cases r)
    case (Streamed evs failure)
    with assms(1) obtain e where "failure = Some e" "isAbortError e"
      by (cases failure) (simp_all add: isAbortRound_def)
    with Streamed show ?thesis by (simp add: Let_def a_start_silent)
  qed (use assms(1) in \<open>simp_all add: isAbortRound_def\<close>)
next
  case (Cons p pre)
  show ?case
  proof (cases p)
    case (Streamed evs failure)
    let ?s = "foldl (a_handle parse) (a_start i o' w acc) evs"
    from Cons.prems Streamed have none: "failure = None"
      by (cases failure) (simp_all add: Let_def)
    from Cons.prems Streamed none obtain load where load: "loadFileContents opts = Some load"
      by (cases "loadFileContents opts") (simp_all add: Let_def)
    from Cons.prems Streamed none load
    have cont: "a_stopReason ?s = ''tool_use'' \<and> a_pendingToolCalls ?s \<noteq> []"
      by (simp add: Let_def split: if_splits)
    obtain thrown updated loaded where round': "a_toolRound load ?s msgs = (thrown, updated, loaded)"
      by (cases "a_toolRound load ?s msgs")
    from Cons.prems Streamed none load cont round' have "thrown = None"
      by (cases thrown) (simp_all add: Let_def)
    with round' have round: "a_toolRound load ?s msgs = (None, updated, loaded)"
      by simp
    have loaded: "list_all silent loaded"
      using a_toolRound_silent [of load ?s msgs] round by simp
    from Cons.prems Streamed none load cont round
    have "fst (a_makeStreamingRequest parse opts pre updated
            (a_inputTokens ?s) (a_outputTokens ?s) (a_webSearchCount ?s) (a_fullResponse ?s)) = Pending"
      by (simp add: Let_def split: prod.splits)
    from Cons.IH [OF this] obtain e tr sent where
      rec: "a_makeStreamingRequest parse opts (pre @ r # post) updated
            (a_inputTokens ?s) (a_outputTokens ?s) (a_webSearchCount ?s) (a_fullResponse ?s) = (Threw e, tr, sent)"
      and e: "isAbortError e" and tr: "list_all silent tr"
      by blast
    show ?thesis
      using Streamed none load cont round rec e tr loaded
      by (simp add: Let_def a_start_silent)
  qed (use Cons.prems in simp_all)
qed

lemma o_toolCall_silent:
  assumes "list_all silent (o_trace s)"
  shows "list_all silent (o_trace (o_toolCall parse s tc))"
  using assms
  by (simp add: o_toolCall_def Let_def silent_def
      split: option.splits parsed_args.splits tool_input.splits)

lemma o_toolCalls_silent:
  "list_all silent (o_trace s) \<Longrightarrow> list_all silent (o_trace (foldl (o_toolCall parse) s tcs))"
  by (induction tcs arbitrary: s) (simp_all add: o_toolCall_silent)

lemma o_handle_silent:
  assumes "list_all silent (o_trace s)"
  shows "list_all silent (o_trace (o_handle parse s chunk))"
  using assms
  by (auto simp add: o_handle_def Let_def silent_def
      split: option.splits o_delta.splits prod.splits intro!: o_toolCalls_silent)

lemma o_fold_silent:
  "list_all silent (o_trace s) \<Longrightarrow> list_all silent (o_trace (foldl (o_handle parse) s chunks))"
  by (induction chunks arbitrary: s) (simp_all add: o_handle_silent)

lemma o_start_silent: "list_all silent (o_trace (foldl (o_handle parse) (o_start i o' acc) chunks))"
  by (rule o_fold_silent) (simp add: o_start_def)

lemma o_resolve_silent: "list_all silent (snd (o_resolve parse load call))"
  by (simp add: o_resolve_def silent_def Let_def
      split: sum.splits prod.splits parsed_args.splits tool_input.splits)

lemma o_toolRound_silent: "list_all silent (snd (o_toolRound parse load s msgs))"
  by (simp add: o_toolRound_def Let_def list_all_iff o_resolve_silent [unfolded list_all_iff])

lemma o_abort:
  assumes "isAbortRound r"
    and "fst (o_makeStreamingRequest parse opts pre msgs i o' acc) = Pending"
  shows "\<exists>e tr sent. o_makeStreamingRequest parse opts (pre @ r # post) msgs i o' acc = (Threw e, tr, sent)
           \<and> isAbortError e \<and> list_all silent tr"
  using assms(2)
proof (induction pre arbitrary: msgs i o' acc)
  case Nil
  show ?case
  proof (cases r)
    case (Streamed chunks failure)
    with assms(1) obtain e where "failure = Some e" "isAbortError e"
      by (cases failure) (simp_all add: isAbortRound_def)
    with Streamed show ?thesis by (simp add: Let_def o_start_silent)
  qed (use assms(1) in \<open>simp_all add: isAbortRound_def\<close>)
next
  case (Cons p pre)
  show ?case
  proof (cases p)
    case (Streamed chunks failure)
    let ?s = "foldl (o_handle parse) (o_start i o' acc) chunks"
    from Cons.prems Streamed have none: "failure = None"
      by (cases failure) (simp_all add: Let_def)
    from Cons.prems Streamed none obtain load where load: "loadFileContents opts = Some load"
      by (cases "loadFileContents opts") (simp_all add: Let_def)
    from Cons.prems Streamed none load
    have cont: "o_finishReason ?s = ''tool_calls'' \<and> o_pendingToolCalls ?s \<noteq> []"
      by (simp add: Let_def split: if_splits)
    obtain updated loaded where round: "o_toolRound parse load ?s msgs = (updated, loaded)"
      by (cases "o_toolRound parse load ?s msgs")
    have loaded: "list_all silent loaded"
      using o_toolRound_silent [of parse load ?s msgs] round by simp
    from Cons.prems Streamed none load cont round
    have "fst (o_makeStreamingRequest parse opts pre updated
            (o_inputTokens ?s) (o_outputTokens ?s) (o_fullResponse ?s)) = Pending"
      by (simp add: Let_def split: prod.splits)
    from Cons.IH [OF this] obtain e tr sent where
      rec: "o_makeStreamingRequest parse opts (pre @ r # post) updated
            (o_inputTokens ?s) (o_outputTokens ?s) (o_fullResponse ?s) = (Threw e, tr, sent)"
      and e: "isAbortError e" and tr: "list_all silent tr"
      by blast
    show ?thesis
      using Streamed none load cont round rec e tr loaded
      by (simp add: Let_def o_start_silent)
  qed (use Cons.prems in simp_all)
qed

lemma g_handlePart_silent:
  assumes "list_all silent (g_trace s)"
  shows "list_all silent (g_trace (g_handlePart s part))"
  using assms by (simp add: g_handlePart_def Let_def silent_def split: option.splits)

lemma g_parts_silent:
  "list_all silent (g_trace s) \<Longrightarrow> list_all silent (g_trace (foldl g_handlePart s ps))"
  by (induction ps arbitrary: s) (simp_all add: g_handlePart_silent)

lemma g_handle_silent:
  assumes "list_all silent (g_trace s)"
  shows "list_all silent (g_trace (g_handle s chunk))"
  using assms g_parts_silent [OF assms]
  by (simp add: g_handle_def Let_def split: option.splits prod.splits)

lemma g_fold_silent:
  "list_all silent (g_trace s) \<Longrightarrow> list_all silent (g_trace (foldl g_handle s chunks))"
  by (induction chunks arbitrary: s) (simp_all add: g_handle_silent)

lemma g_start_silent: "list_all silent (g_trace (foldl g_handle (g_start i o' acc) chunks))"
  by (rule g_fold_silent) (simp add: g_start_def)

lemma g_resolve_silent: "list_all silent (snd (g_resolve load call))"
  by (simp add: g_resolve_def silent_def Let_def split: sum.splits prod.splits)

lemma g_toolRound_silent: "list_all silent (snd (g_toolRound load s msgs))"
  by (simp add: g_toolRound_def Let_def list_all_iff g_resolve_silent [unfolded list_all_iff])

lemma g_abort:
  assumes "isAbortRound r"
    and "fst (g_makeStreamingRequest opts pre msgs i o' acc) = Pending"
  shows "\<exists>e tr sent. g_makeStreamingRequest opts (pre @ r # post) msgs i o' acc = (Threw e, tr, sent)
           \<and> isAbortError e \<and> list_all silent tr"
  using assms(2)
proof (induction pre arbitrary: msgs i o' acc)
  case Nil
  show ?case
  proof (cases r)
    case (Streamed chunks failure)
    with assms(1) obtain e where "failure = Some e" "isAbortError e"
      by (cases failure) (simp_all add: isAbortRound_def)
    with Streamed show ?thesis by (simp add: Let_def g_start_silent)
  qed (use assms(1) in \<open>simp_all add: isAbortRound_def\<close>)
next
  case (Cons p pre)
  show ?case
  proof (cases p)
    case (Streamed chunks failure)
    let ?s = "foldl g_handle (g_start i o' acc) chunks"
    from Cons.prems Streamed have none: "failure = None"
      by (cases failure) (simp_all add: Let_def)
    from Cons.prems Streamed none obtain load where load: "loadFileContents opts = Some load"
      by (cases "loadFileContents opts") (simp_all add: Let_def)
    from Cons.prems Streamed none load
    have cont: "g_pendingFunctionCalls ?s \<noteq> []"
      by (simp add: Let_def split: if_splits)
    obtain updated loaded where round: "g_toolRound load ?s msgs = (updated, loaded)"
      by (cases "g_toolRound load ?s msgs")
    have loaded: "list_all silent loaded"
      using g_toolRound_silent [of load ?s msgs] round by simp
    from Cons.prems Streamed none load cont round
    have "fst (g_makeStreamingRequest opts pre updated
            (g_inputTokens ?s) (g_outputTokens ?s) (g_fullResponse ?s)) = Pending"
      by (simp add: Let_def split: prod.splits)
    from Cons.IH [OF this] obtain e tr sent where
      rec: "g_makeStreamingRequest opts (pre @ r # post) updated
            (g_inputTokens ?s) (g_outputTokens ?s) (g_fullResponse ?s) = (Threw e, tr, sent)"
      and e: "isAbortError e" and tr: "list_all silent tr"
      by blast
    show ?thesis
      using Streamed none load cont round rec e tr loaded
      by (simp add: Let_def g_start_silent)
  qed (use Cons.prems in simp_all)
qed

lemma anthropic_abort:
  assumes "isAbortRound r" "\<not> fst (anthropic_sendMessage parse opts pre)"
  shows "\<exists>tr sent. anthropic_sendMessage parse opts (pre @ r # post) = (True, tr, sent) \<and>
           list_all (\<lambda>c. \<not> isOnComplete c \<and> \<not> isOnError c) tr"
proof -
  let ?msgs = "map (\<lambda>(r, c). AMessage (roleName r) (AString c)) (messages opts)"
  from assms(2) have "fst (a_makeStreamingRequest parse opts pre ?msgs 0 0 0 []) = Pending"
    by (auto simp add: anthropic_sendMessage_def split: prod.splits completion.splits)
  from a_abort [OF assms(1) this, of post] obtain e tr sent where
    "a_makeStreamingRequest parse opts (pre @ r # post) ?msgs 0 0 0 [] = (Threw e, tr, sent)"
    "isAbortError e" "list_all silent tr"
    by blast
  then have "anthropic_sendMessage parse opts (pre @ r # post) = (True, OnStart # tr, sent) \<and>
      list_all silent (OnStart # tr)"
    by (simp add: anthropic_sendMessage_def a_catch_def silent_def)
  then show ?thesis by (auto simp add: silent_def [abs_def])
qed

lemma openai_abort:
  assumes "isAbortRound r" "\<not> fst (openai_sendMessage parse opts pre)"
  shows "\<exists>tr sent. openai_sendMessage parse opts (pre @ r # post) = (True, tr, sent) \<and>
           list_all (\<lambda>c. \<not> isOnComplete c \<and> \<not> isOnError c) tr"
proof -
  let ?msgs = "OMessage ''developer'' (systemPrompt opts)
              # map (\<lambda>(r, c). OMessage (roleName r) c) (messages opts)"
  from assms(2) have "fst (o_makeStreamingRequest parse opts pre ?msgs 0 0 []) = Pending"
    by (auto simp add: openai_sendMessage_def split: prod.splits completion.splits)
  from o_abort [OF assms(1) this, of post] obtain e tr sent where
    "o_makeStreamingRequest parse opts (pre @ r # post) ?msgs 0 0 [] = (Threw e, tr, sent)"
    "isAbortError e" "list_all silent tr"
    by blast
  then have "openai_sendMessage parse opts (pre @ r # post) = (True, OnStart # tr, sent) \<and>
      list_all silent (OnStart # tr)"
    by (simp add: openai_sendMessage_def a_catch_def silent_def)
  then show ?thesis by (auto simp add: silent_def [abs_def])
qed

lemma gemini_abort:
  assumes "isAbortRound r" "\<not> fst (gemini_sendMessage opts pre)"
  shows "\<exists>tr sent. gemini_sendMessage opts (pre @ r # post) = (True, tr, sent) \<and>
           list_all (\<lambda>c. \<not> isOnComplete c \<and> \<not> isOnError c) tr"
proof -
  let ?msgs = "map (\<lambda>(r, c). GContent (if r = Assistant then ''model'' else ''user'') [GText c])
                (messages opts)"
  from assms(2) have "fst (g_makeStreamingRequest opts pre ?msgs 0 0 []) = Pending"
    by (auto simp add: gemini_sendMessage_def split: prod.splits completion.splits)
  from g_abort [OF assms(1) this, of post] obtain e tr sent where
    "g_makeStreamingRequest opts (pre @ r # post) ?msgs 0 0 [] = (Threw e, tr, sent)"
    "isAbortError e" "list_all silent tr"
    by blast
  then have "gemini_sendMessage opts (pre @ r # post) = (True, OnStart # tr, sent) \<and>
      list_all silent (OnStart # tr)"
    by (simp add: gemini_sendMessage_def g_catch_def silent_def)
  then show ?thesis by (auto simp add: silent_def [abs_def])
qed

text \<open>
  Claim C3. For each adapter: let the turn still wait for a response after the rounds
  \<open>pre\<close>, and let that response be cancelled (the request or a read of its body rejects
  with an AbortError). Then \<open>sendMessage\<close> settles, and neither \<open>onComplete\<close> nor
  \<open>onError\<close> is among the callbacks of the turn.
\<close>

theorem cancelled_turn_silent:
  "(isAbortRound ra \<and> \<not> fst (anthropic_sendMessage parse opts pre_a) \<longrightarrow>
      (\<exists>tr sent. anthropic_sendMessage parse opts (pre_a @ ra # post_a) = (True, tr, sent) \<and>
         list_all (\<lambda>c. \<not> isOnComplete c \<and> \<not> isOnError c) tr)) \<and>
   (isAbortRound ro \<and> \<not> fst (openai_sendMessage parse opts pre_o) \<longrightarrow>
      (\<exists>tr sent. openai_sendMessage parse opts (pre_o @ ro # post_o) = (True, tr, sent) \<and>
         list_all (\<lambda>c. \<not> isOnComplete c \<and> \<not> isOnError c) tr)) \<and>
   (isAbortRound rg \<and> \<not> fst (gemini_sendMessage opts pre_g) \<longrightarrow>
      (\<exists>tr sent. gemini_sendMessage opts (pre_g @ rg # post_g) = (True, tr, sent) \<and>
         list_all (\<lambda>c. \<not> isOnComplete c \<and> \<not> isOnError c) tr))"
  using anthropic_abort [of ra parse opts pre_a post_a] openai_abort [of ro parse opts pre_o post_o]
    gemini_abort [of rg opts pre_g post_g]
  by blast

lemma waiting_examples:
  "\<not> fst (anthropic_sendMessage parseExample optsExample [Streamed aTool None])"
  "\<not> fst (openai_sendMessage parseExample optsExample [Streamed oTool None])"
  "\<not> fst (gemini_sendMessage optsExample [Streamed gTool None])"
  by code_simp+

theorem cancelled_turn_silent_witness:
  "(\<exists>tr sent. anthropic_sendMessage parseExample optsExample
        [Streamed aTool None, Streamed (take 3 aPlain) (Some abortError)] = (True, tr, sent) \<and>
      list_all (\<lambda>c. \<not> isOnComplete c \<and> \<not> isOnError c) tr) \<and>
   (\<exists>tr sent. openai_sendMessage parseExample optsExample
        [Streamed oTool None, Streamed (take 1 oPlain) (Some abortError)] = (True, tr, sent) \<and>
      list_all (\<lambda>c. \<not> isOnComplete c \<and> \<not> isOnError c) tr) \<and>
   (\<exists>tr sent. gemini_sendMessage optsExample
        [Streamed gTool None, FetchFails abortError] = (True, tr, sent) \<and>
      list_all (\<lambda>c. \<not> isOnComplete c \<and> \<not> isOnError c) tr)"
proof -
  have abort: "isAbortRound (Streamed (take 3 aPlain) (Some abortError))"
    "isAbortRound (Streamed (take 1 oPlain) (Some abortError))"
    "isAbortRound (FetchFails abortError :: g_chunk round)"
    by (simp_all add: isAbortRound_def isAbortError_def abortError_def)
  show ?thesis
    using cancelled_turn_silent [where ra = "Streamed (take 3 aPlain) (Some abortError)"
        and ro = "Streamed (take 1 oPlain) (Some abortError)" and rg = "FetchFails abortError"
        and parse = parseExample and opts = optsExample
        and pre_a = "[Streamed aTool None]" and pre_o = "[Streamed oTool None]"
        and pre_g = "[Streamed gTool None]" and post_a = "[]" and post_o = "[]" and post_g = "[]"]
      abort waiting_examples
    by simp
qed

subsection \<open>Usage across the rounds of a turn\<close>

text \<open>
  Claim C1. The usage reported at the end of a turn should sum the token counts of every
  round. On a turn of two rounds, the first reporting 100 input and 20 output tokens and
  asking for a file, the second reporting 12 and 2, the OpenAI and the Gemini adapter report
  12 and 2, the counts of the last round; the Anthropic adapter reports 112 and 22.
\<close>

theorem usage_last_round_only:
  "usageCounts (fst (snd (openai_sendMessage parseExample optsExample
       [Streamed oTool None, Streamed oPlain None]))) = [(12, 2)] \<and>
   usageCounts (fst (snd (gemini_sendMessage optsExample
       [Streamed gTool None, Streamed gPlain None]))) = [(12, 2)] \<and>
   usageCounts (fst (snd (anthropic_sendMessage parseExample optsExample
       [Streamed aTool None, Streamed aPlain None]))) = [(112, 22)]"
  by code_simp

text \<open>
  For every turn of the Anthropic adapter that returns, the reported counts are the sums
  over the rounds the turn used; the OpenAI and Gemini adapters replace their counts at
  every chunk that carries usage.
\<close>

lemma usageCounts_append: "usageCounts (xs @ ys) = usageCounts xs @ usageCounts ys"
  by (induction xs rule: usageCounts.induct) simp_all

lemma a_handle_tokens:
  "a_inputTokens (a_handle parse s ev) = a_inputTokens s + a_reportedInput ev \<and>
   a_outputTokens (a_handle parse s ev) = a_outputTokens s + a_reportedOutput ev \<and>
   usageCounts (a_trace (a_handle parse s ev)) = usageCounts (a_trace s)"
proof (cases ev)
  case (ContentBlockStart b)
  then show ?thesis
    by (cases "(b, s)" rule: a_blockStart.cases) (simp_all add: a_emit_def usageCounts_append)
next
  case (ContentBlockDelta d)
  then show ?thesis
    by (cases d)
       (simp_all add: a_emit_def usageCounts_append Let_def split: parsed_args.splits tool_input.splits)
next
  case ContentBlockStop
  then show ?thesis by (simp add: a_blockStop_def Let_def split: parsed_args.splits)
next
  case (MessageDelta u r)
  then show ?thesis by (simp add: Let_def)
qed simp_all

lemma a_fold_tokens:
  "a_inputTokens (foldl (a_handle parse) s evs) = a_inputTokens s + sum_list (map a_reportedInput evs) \<and>
   a_outputTokens (foldl (a_handle parse) s evs) = a_outputTokens s + sum_list (map a_reportedOutput evs) \<and>
   usageCounts (a_trace (foldl (a_handle parse) s evs)) = usageCounts (a_trace s)"
  by (induction evs arbitrary: s) (simp_all add: a_handle_tokens)

lemma a_toolRound_usage: "usageCounts (snd (snd (a_toolRound load s msgs))) = []"
proof -
  have one: "a_resolve load call = Inr (results, calls) \<Longrightarrow> usageCounts calls = []"
    for call results calls
    by (auto simp add: a_resolve_def split: if_splits tool_input.splits sum.splits)
  have "usageCounts (snd (snd (a_resolveAll load calls))) = []" for calls
    by (induction calls) (auto simp add: usageCounts_append split: sum.splits prod.splits dest: one)
  from this [of "a_pendingToolCalls s"] show ?thesis
    by (auto simp add: a_toolRound_def Let_def split: prod.splits)
qed

lemma usageCounts_usageCallbacks:
  "usageCounts (usageCallbacks model tin tout w) = (if 0 < tin \<or> 0 < tout then [(tin, tout)] else [])"
  by (simp add: usageCallbacks_def)

lemma a_usage_accumulates:
  assumes "a_makeStreamingRequest parse opts script msgs i o' w acc = (Returned, tr, sent)"
  shows "usageCounts tr =
           (let rounds = take (length sent) script;
                tin = i + sum_list (map (\<lambda>r. sum_list (map a_reportedInput (roundEvents r))) rounds);
                tout = o' + sum_list (map (\<lambda>r. sum_list (map a_reportedOutput (roundEvents r))) rounds)
            in if 0 < tin \<or> 0 < tout then [(tin, tout)] else [])"
  using assms
proof (induction script arbitrary: msgs i o' w acc tr sent)
  case Nil
  then show ?case by simp
next
  case (Cons p script)
  show ?case
  proof (cases p)
    case (Streamed evs failure)
    let ?s = "foldl (a_handle parse) (a_start i o' w acc) evs"
    from Cons.prems Streamed have none: "failure = None"
      by (cases failure) (simp_all add: Let_def)
    note tok = a_fold_tokens [of parse "a_start i o' w acc" evs]
    have tin: "a_inputTokens ?s = i + sum_list (map a_reportedInput evs)"
      and tout: "a_outputTokens ?s = o' + sum_list (map a_reportedOutput evs)"
      and quiet: "usageCounts (a_trace ?s) = []"
      using tok by (simp_all add: a_start_def)
    have final: "usageCounts (a_finish opts ?s) =
        (if 0 < a_inputTokens ?s \<or> 0 < a_outputTokens ?s then [(a_inputTokens ?s, a_outputTokens ?s)] else [])"
      by (simp add: a_finish_def usageCounts_append quiet usageCounts_usageCallbacks)
    show ?thesis
    proof (cases "\<exists>load. loadFileContents opts = Some load \<and> a_stopReason ?s = ''tool_use'' \<and> a_pendingToolCalls ?s \<noteq> []")
      case False
      with Cons.prems Streamed none have "tr = a_finish opts ?s" "sent = [msgs]"
        by (auto simp add: Let_def split: option.splits if_splits)
      then show ?thesis using final tin tout Streamed by (simp add: roundEvents_def Let_def)
    next
      case True
      then obtain load where load: "loadFileContents opts = Some load"
        and cont: "a_stopReason ?s = ''tool_use'' \<and> a_pendingToolCalls ?s \<noteq> []" by blast
      obtain thrown updated loaded where round': "a_toolRound load ?s msgs = (thrown, updated, loaded)"
        by (cases "a_toolRound load ?s msgs")
      from Cons.prems Streamed none load cont round' have "thrown = None"
        by (cases thrown) (simp_all add: Let_def)
      with round' have round: "a_toolRound load ?s msgs = (None, updated, loaded)"
        by simp
      have loaded: "usageCounts loaded = []"
        using a_toolRound_usage [of load ?s msgs] round by simp
      obtain c tr' sent' where rec: "a_makeStreamingRequest parse opts script updated
            (a_inputTokens ?s) (a_outputTokens ?s) (a_webSearchCount ?s) (a_fullResponse ?s) = (c, tr', sent')"
        by (cases "a_makeStreamingRequest parse opts script updated
            (a_inputTokens ?s) (a_outputTokens ?s) (a_webSearchCount ?s) (a_fullResponse ?s)")
      from Cons.prems Streamed none load cont round rec
      have res: "c = Returned" "tr = a_trace ?s @ loaded @ tr'" "sent = msgs # sent'"
        by (simp_all add: Let_def)
      from Cons.IH [OF rec [unfolded res(1)]]
      have "usageCounts tr' =
           (let rounds = take (length sent') script;
                tin = a_inputTokens ?s + sum_list (map (\<lambda>r. sum_list (map a_reportedInput (roundEvents r))) rounds);
                tout = a_outputTokens ?s + sum_list (map (\<lambda>r. sum_list (map a_reportedOutput (roundEvents r))) rounds)
            in if 0 < tin \<or> 0 < tout then [(tin, tout)] else [])" .
      then show ?thesis
        using res quiet loaded tin tout Streamed
        by (simp add: usageCounts_append Let_def roundEvents_def add.assoc)
    qed
  qed (use Cons.prems in simp_all)
qed

lemma o_usage_overwrites:
  "o_usage chunk = Some (p, c) \<Longrightarrow>
   o_inputTokens (o_handle parse s chunk) = numOr p 0 \<and>
   o_outputTokens (o_handle parse s chunk) = numOr c 0"
  by (simp add: o_handle_def Let_def)

lemma g_usage_overwrites:
  "g_usage chunk = Some (Some p, Some c) \<Longrightarrow> p \<noteq> 0 \<Longrightarrow> c \<noteq> 0 \<Longrightarrow>
   g_inputTokens (g_handle s chunk) = p \<and> g_outputTokens (g_handle s chunk) = c"
  by (simp add: g_handle_def Let_def)

end
